theory Spec2Isabelle
  imports Main "HOL-Library.AList"
begin

section \<open>Python values used by the flattener\<close>

text \<open>
  The exceptions the embedded code can raise.  \<open>GoogleAPICallError c\<close> is an exception of
  the BigQuery client that carries the HTTP status \<open>c\<close> in its attribute \<open>code\<close>;
  the other constructors are Python's builtin exceptions, which have no such attribute.
\<close>

datatype py_exn =
    GoogleAPICallError nat
  | IndexError
  | TypeError
  | KeyError
  | ValueError
  | AttributeError

text \<open>
  Strings are HOL strings.  The character tests are Python's \<open>str.isdigit\<close>,
  \<open>str.isalnum\<close> and \<open>str.lower\<close> on ASCII text: a character outside ASCII counts as
  neither a letter nor a digit and is left alone by \<open>lower\<close>.
\<close>

definition isdigit :: "char \<Rightarrow> bool" where
  "isdigit c = (let n = (of_char c :: nat) in 48 \<le> n \<and> n \<le> 57)"

definition isupper :: "char \<Rightarrow> bool" where
  "isupper c = (let n = (of_char c :: nat) in 65 \<le> n \<and> n \<le> 90)"

definition islower :: "char \<Rightarrow> bool" where
  "islower c = (let n = (of_char c :: nat) in 97 \<le> n \<and> n \<le> 122)"

definition isalnum :: "char \<Rightarrow> bool" where
  "isalnum c = (isdigit c \<or> isupper c \<or> islower c)"

definition lower_char :: "char \<Rightarrow> char" where
  "lower_char c = (if isupper c then char_of ((of_char c :: nat) + 32) else c)"

definition lower :: "string \<Rightarrow> string" where
  "lower s = map lower_char s"

text \<open>\<open>s.endswith(suf)\<close> and \<open>s.replace(a, b)\<close> for single characters \<open>a\<close>, \<open>b\<close>.\<close>

definition endswith :: "string \<Rightarrow> string \<Rightarrow> bool" where
  "endswith s suf = (length suf \<le> length s \<and> drop (length s - length suf) s = suf)"

definition replace_char :: "char \<Rightarrow> char \<Rightarrow> string \<Rightarrow> string" where
  "replace_char a b s = map (\<lambda>c. if c = a then b else c) s"

section \<open>Field-name sanitization\<close>

text \<open>
  \<open>_create_valid_bigquery_field_name\<close>: the loop appends, for every character of the
  lowered key, the character itself when it is alphanumeric and an underscore otherwise.
  Then \<open>r[0]\<close> is read, which raises \<open>IndexError\<close> on the empty string, an underscore is
  put in front of a leading digit, and the result is cut to 300 characters.
\<close>

fun valid_field_name_loop :: "string \<Rightarrow> string \<Rightarrow> string" where
  "valid_field_name_loop r [] = r"
| "valid_field_name_loop r (char # rest) =
     (if isalnum char then valid_field_name_loop (r @ [char]) rest
      else valid_field_name_loop (r @ ''_'') rest)"

definition create_valid_bigquery_field_name :: "string \<Rightarrow> py_exn + string" where
  "create_valid_bigquery_field_name p_field =
     (let r = valid_field_name_loop '''' (lower p_field) in
      case r of
        [] \<Rightarrow> Inl IndexError
      | r0 # _ \<Rightarrow>
          (let r' = (if isdigit r0 then ''_'' @ r else r) in Inr (take 300 r')))"

section \<open>Dates\<close>

text \<open>
  A \<open>datetime\<close> at midnight, as \<open>datetime.strptime(date_shard, '%Y%m%d')\<close> returns it.
  \<open>strptime_Ymd\<close> follows the standard library: the format is matched from the left as
  four digits for the year, then the month as \<open>1[0-2]|0[1-9]|[1-9]\<close>, then the day as
  \<open>3[0-1]|[1-2]\d|0[1-9]|[1-9]| [1-9]\<close>, alternatives in this order and the first
  combination that matches being taken; text left over after the match, a year 0 or a day
  that the month does not have raise \<open>ValueError\<close>.
\<close>

datatype datetime = Datetime (year: nat) (month: nat) (day: nat)

definition digit_val :: "char \<Rightarrow> nat" where
  "digit_val c = of_char c - 48"

definition in_range :: "char \<Rightarrow> char \<Rightarrow> char \<Rightarrow> bool" where
  "in_range lo hi c = ((of_char lo :: nat) \<le> of_char c \<and> (of_char c :: nat) \<le> of_char hi)"

definition match_Y :: "string \<Rightarrow> (nat \<times> string) option" where
  "match_Y s =
     (case s of
        a # b # c # d # rest \<Rightarrow>
          (if isdigit a \<and> isdigit b \<and> isdigit c \<and> isdigit d
           then Some (1000 * digit_val a + 100 * digit_val b + 10 * digit_val c + digit_val d, rest)
           else None)
      | _ \<Rightarrow> None)"

definition match_m :: "string \<Rightarrow> (nat \<times> string) list" where
  "match_m s =
     (case s of
        a # b # rest \<Rightarrow>
          (if a = CHR ''1'' \<and> in_range (CHR ''0'') (CHR ''2'') b
           then [(10 + digit_val b, rest)] else [])
          @ (if a = CHR ''0'' \<and> in_range (CHR ''1'') (CHR ''9'') b
             then [(digit_val b, rest)] else [])
      | _ \<Rightarrow> [])
     @ (case s of
          a # rest \<Rightarrow> (if in_range (CHR ''1'') (CHR ''9'') a then [(digit_val a, rest)] else [])
        | _ \<Rightarrow> [])"

definition match_d :: "string \<Rightarrow> (nat \<times> string) list" where
  "match_d s =
     (case s of
        a # b # rest \<Rightarrow>
          (if a = CHR ''3'' \<and> in_range (CHR ''0'') (CHR ''1'') b
           then [(30 + digit_val b, rest)] else [])
          @ (if in_range (CHR ''1'') (CHR ''2'') a \<and> isdigit b
             then [(10 * digit_val a + digit_val b, rest)] else [])
          @ (if a = CHR ''0'' \<and> in_range (CHR ''1'') (CHR ''9'') b
             then [(digit_val b, rest)] else [])
      | _ \<Rightarrow> [])
     @ (case s of
          a # rest \<Rightarrow> (if in_range (CHR ''1'') (CHR ''9'') a then [(digit_val a, rest)] else [])
        | _ \<Rightarrow> [])
     @ (case s of
          a # b # rest \<Rightarrow>
            (if a = CHR '' '' \<and> in_range (CHR ''1'') (CHR ''9'') b
             then [(digit_val b, rest)] else [])
        | _ \<Rightarrow> [])"

definition is_leap :: "nat \<Rightarrow> bool" where
  "is_leap y = (y mod 4 = 0 \<and> (y mod 100 \<noteq> 0 \<or> y mod 400 = 0))"

definition days_in_month :: "nat \<Rightarrow> nat \<Rightarrow> nat" where
  "days_in_month y m =
     (if m = 2 then (if is_leap y then 29 else 28)
      else if m = 4 \<or> m = 6 \<or> m = 9 \<or> m = 11 then 30 else 31)"

definition strptime_Ymd :: "string \<Rightarrow> py_exn + datetime" where
  "strptime_Ymd s =
     (case match_Y s of
        None \<Rightarrow> Inl ValueError
      | Some (y, r1) \<Rightarrow>
          (case concat (map (\<lambda>(m, r2). map (\<lambda>(d, r3). (m, d, r3)) (match_d r2)) (match_m r1)) of
             [] \<Rightarrow> Inl ValueError
           | (m, d, r3) # _ \<Rightarrow>
               (if r3 \<noteq> [] then Inl ValueError
                else if y < 1 \<or> days_in_month y m < d then Inl ValueError
                else Inr (Datetime y m d))))"

text \<open>\<open>str(d)\<close> for a \<open>datetime\<close> at midnight: \<open>YYYY-MM-DD 00:00:00\<close>.\<close>

definition digit_char :: "nat \<Rightarrow> char" where
  "digit_char n = char_of (48 + n mod 10)"

definition pad2 :: "nat \<Rightarrow> string" where
  "pad2 n = [digit_char (n div 10), digit_char n]"

definition pad4 :: "nat \<Rightarrow> string" where
  "pad4 n = [digit_char (n div 1000), digit_char (n div 100), digit_char (n div 10), digit_char n]"

definition str_datetime :: "datetime \<Rightarrow> string" where
  "str_datetime d = pad4 (year d) @ ''-'' @ pad2 (month d) @ ''-'' @ pad2 (day d) @ '' 00:00:00''"

section \<open>The storage object\<close>

text \<open>
  A field of a BigQuery schema: its name and its type.  The members of
  \<open>bigquery.enums.SqlTypeNames\<close> are the strings \<open>STRING\<close>, \<open>INTEGER\<close>, \<open>FLOAT\<close>
  and \<open>DATE\<close>; a type fingerprint read from the source data is a string as well.
\<close>

datatype SchemaField = SchemaField (name: string) (field_type: string)

text \<open>
  The attributes of \<open>GaExportedNestedDataStorage\<close> that the methods read or write.
  \<open>event_params_flat_fields\<close> is a Python dict, whose iteration order is the order of
  first insertion: an association list, written with \<open>AList.update\<close>, which replaces the
  value of a key in place and puts a new key at the end.  \<open>partitioned_table_schemas\<close> is
  a dict from table type to schema.  The lists of GA4 field names are set once by the
  constructor and never assigned again; they are constants here.
\<close>

record GaExportedNestedDataStorage =
  gcp_project :: string
  dataset :: string
  date_shard :: string
  date :: datetime
  table_name :: string
  ga_type :: string
  event_params_flat_fields :: "(string \<times> string) list"
  partitioned_table_schemas :: "(string \<times> SchemaField list) list"

definition EP_SUFFIX :: string where
  "EP_SUFFIX = ''_ep''"

definition partitioning_column :: string where
  "partitioning_column = ''event_date''"

definition unique_event_id_fields :: "string list" where
  "unique_event_id_fields =
  [''stream_id'', ''user_pseudo_id'', ''event_name'', ''event_timestamp'']"

definition event_params_fields :: "string list" where
  "event_params_fields =
  [''event_params.key'', ''event_params.value.string_value'', ''event_params.value.int_value'',
   ''event_params.value.float_value'', ''event_params.value.double_value'']"

definition user_properties_fields :: "string list" where
  "user_properties_fields =
  [''user_properties.key'', ''user_properties.value.string_value'',
   ''user_properties.value.int_value'', ''user_properties.value.float_value'',
   ''user_properties.value.double_value'', ''user_properties.value.set_timestamp_micros'']"

definition items_fields :: "string list" where
  "items_fields =
  [''items.item_id'', ''items.item_name'', ''items.item_brand'', ''items.item_variant'',
   ''items.item_category'', ''items.item_category2'', ''items.item_category3'',
   ''items.item_category4'', ''items.item_category5'', ''items.price_in_usd'', ''items.price'',
   ''items.quantity'', ''items.item_revenue_in_usd'', ''items.item_revenue'',
   ''items.item_refund_in_usd'', ''items.item_refund'', ''items.coupon'',
   ''items.affiliation'', ''items.location_id'', ''items.item_list_id'',
   ''items.item_list_name'', ''items.item_list_index'', ''items.promotion_id'',
   ''items.promotion_name'', ''items.creative_name'', ''items.creative_slot'']"

definition events_fields :: "string list" where
  "events_fields =
  [''event_date'', ''event_timestamp'', ''event_name'', ''event_previous_timestamp'',
   ''event_value_in_usd'', ''event_bundle_sequence_id'', ''event_server_timestamp_offset'',
   ''user_id'', ''user_pseudo_id'', ''privacy_info.analytics_storage'',
   ''privacy_info.ads_storage'', ''privacy_info.uses_transient_token'',
   ''user_first_touch_timestamp'', ''user_ltv.revenue'', ''user_ltv.currency'',
   ''device.category'', ''device.mobile_brand_name'', ''device.mobile_model_name'',
   ''device.mobile_marketing_name'', ''device.mobile_os_hardware_model'',
   ''device.operating_system'', ''device.operating_system_version'', ''device.vendor_id'',
   ''device.advertising_id'', ''device.language'', ''device.is_limited_ad_tracking'',
   ''device.time_zone_offset_seconds'', ''device.browser'', ''device.browser_version'',
   ''device.web_info.browser'', ''device.web_info.browser_version'',
   ''device.web_info.hostname'', ''geo.continent'', ''geo.country'', ''geo.region'',
   ''geo.city'', ''geo.sub_continent'', ''geo.metro'', ''app_info.id'', ''app_info.version'',
   ''app_info.install_store'', ''app_info.firebase_app_id'', ''app_info.install_source'',
   ''traffic_source.name'', ''traffic_source.medium'', ''traffic_source.source'',
   ''stream_id'', ''platform'', ''event_dimensions.hostname'',
   ''ecommerce.total_item_quantity'', ''ecommerce.purchase_revenue_in_usd'',
   ''ecommerce.purchase_revenue'', ''ecommerce.refund_value_in_usd'',
   ''ecommerce.refund_value'', ''ecommerce.shipping_value_in_usd'',
   ''ecommerce.shipping_value'', ''ecommerce.tax_value_in_usd'', ''ecommerce.tax_value'',
   ''ecommerce.unique_items'', ''ecommerce.transaction_id'']"

definition flat_event_params_schema :: "SchemaField list" where
  "flat_event_params_schema =
  [SchemaField ''event_date'' ''DATE'', SchemaField ''event_id'' ''STRING'',
   SchemaField ''event_params_key'' ''STRING'', SchemaField ''event_params_value'' ''STRING'']"

definition flat_events_schema :: "SchemaField list" where
  "flat_events_schema =
  [SchemaField ''event_date'' ''DATE'', SchemaField ''event_id'' ''STRING'',
   SchemaField ''event_timestamp'' ''INTEGER'', SchemaField ''event_name'' ''STRING'',
   SchemaField ''event_previous_timestamp'' ''INTEGER'',
   SchemaField ''event_value_in_usd'' ''FLOAT'',
   SchemaField ''event_bundle_sequence_id'' ''INTEGER'',
   SchemaField ''event_server_timestamp_offset'' ''INTEGER'',
   SchemaField ''user_id'' ''STRING'', SchemaField ''user_pseudo_id'' ''STRING'',
   SchemaField ''privacy_info_analytics_storage'' ''STRING'',
   SchemaField ''privacy_info_ads_storage'' ''STRING'',
   SchemaField ''privacy_info_uses_transient_token'' ''STRING'',
   SchemaField ''user_first_touch_timestamp'' ''INTEGER'',
   SchemaField ''user_ltv_revenue'' ''FLOAT'', SchemaField ''user_ltv_currency'' ''STRING'',
   SchemaField ''device_category'' ''STRING'',
   SchemaField ''device_mobile_brand_name'' ''STRING'',
   SchemaField ''device_mobile_model_name'' ''STRING'',
   SchemaField ''device_mobile_marketing_name'' ''STRING'',
   SchemaField ''device_mobile_os_hardware_model'' ''STRING'',
   SchemaField ''device_operating_system'' ''STRING'',
   SchemaField ''device_operating_system_version'' ''STRING'',
   SchemaField ''device_vendor_id'' ''STRING'',
   SchemaField ''device_advertising_id'' ''STRING'',
   SchemaField ''device_language'' ''STRING'',
   SchemaField ''device_is_limited_ad_tracking'' ''STRING'',
   SchemaField ''device_time_zone_offset_seconds'' ''INTEGER'',
   SchemaField ''device_browser'' ''STRING'',
   SchemaField ''device_browser_version'' ''STRING'',
   SchemaField ''device_web_info_browser'' ''STRING'',
   SchemaField ''device_web_info_browser_version'' ''STRING'',
   SchemaField ''device_web_info_hostname'' ''STRING'',
   SchemaField ''geo_continent'' ''STRING'', SchemaField ''geo_country'' ''STRING'',
   SchemaField ''geo_region'' ''STRING'', SchemaField ''geo_city'' ''STRING'',
   SchemaField ''geo_sub_continent'' ''STRING'', SchemaField ''geo_metro'' ''STRING'',
   SchemaField ''app_info_id'' ''STRING'', SchemaField ''app_info_version'' ''STRING'',
   SchemaField ''app_info_install_store'' ''STRING'',
   SchemaField ''app_info_firebase_app_id'' ''STRING'',
   SchemaField ''app_info_install_source'' ''STRING'',
   SchemaField ''traffic_source_name'' ''STRING'',
   SchemaField ''traffic_source_medium'' ''STRING'',
   SchemaField ''traffic_source_source'' ''STRING'', SchemaField ''stream_id'' ''STRING'',
   SchemaField ''platform'' ''STRING'', SchemaField ''event_dimensions_hostname'' ''STRING'',
   SchemaField ''ecommerce_total_item_quantity'' ''INTEGER'',
   SchemaField ''ecommerce_purchase_revenue_in_usd'' ''FLOAT'',
   SchemaField ''ecommerce_purchase_revenue'' ''FLOAT'',
   SchemaField ''ecommerce_refund_value_in_usd'' ''FLOAT'',
   SchemaField ''ecommerce_refund_value'' ''FLOAT'',
   SchemaField ''ecommerce_shipping_value_in_usd'' ''FLOAT'',
   SchemaField ''ecommerce_shipping_value'' ''FLOAT'',
   SchemaField ''ecommerce_tax_value_in_usd'' ''FLOAT'',
   SchemaField ''ecommerce_tax_value'' ''FLOAT'',
   SchemaField ''ecommerce_unique_items'' ''INTEGER'',
   SchemaField ''ecommerce_transaction_id'' ''STRING'']"

definition flat_items_schema :: "SchemaField list" where
  "flat_items_schema =
  [SchemaField ''event_date'' ''DATE'', SchemaField ''event_id'' ''STRING'',
   SchemaField ''items_item_id'' ''STRING'', SchemaField ''items_item_name'' ''STRING'',
   SchemaField ''items_item_brand'' ''STRING'', SchemaField ''items_item_variant'' ''STRING'',
   SchemaField ''items_item_category'' ''STRING'',
   SchemaField ''items_item_category2'' ''STRING'',
   SchemaField ''items_item_category3'' ''STRING'',
   SchemaField ''items_item_category4'' ''STRING'',
   SchemaField ''items_item_category5'' ''STRING'',
   SchemaField ''items_price_in_usd'' ''FLOAT'', SchemaField ''items_price'' ''FLOAT'',
   SchemaField ''items_quantity'' ''INTEGER'',
   SchemaField ''items_item_revenue_in_usd'' ''FLOAT'',
   SchemaField ''items_item_revenue'' ''FLOAT'',
   SchemaField ''items_item_refund_in_usd'' ''FLOAT'',
   SchemaField ''items_item_refund'' ''FLOAT'', SchemaField ''items_coupon'' ''STRING'',
   SchemaField ''items_affiliation'' ''STRING'', SchemaField ''items_location_id'' ''STRING'',
   SchemaField ''items_item_list_id'' ''STRING'',
   SchemaField ''items_item_list_name'' ''STRING'',
   SchemaField ''items_item_list_index'' ''STRING'',
   SchemaField ''items_promotion_id'' ''STRING'',
   SchemaField ''items_promotion_name'' ''STRING'',
   SchemaField ''items_creative_name'' ''STRING'',
   SchemaField ''items_creative_slot'' ''STRING'']"

definition flat_user_properties_schema :: "SchemaField list" where
  "flat_user_properties_schema =
  [SchemaField ''event_date'' ''DATE'', SchemaField ''event_id'' ''STRING'',
   SchemaField ''user_properties_key'' ''STRING'',
   SchemaField ''user_properties_value'' ''STRING'',
   SchemaField ''user_properties_value_set_timestamp_micros'' ''INTEGER'']"

definition initial_partitioned_table_schemas :: "(string \<times> SchemaField list) list" where
  "initial_partitioned_table_schemas =
  [(''flat_event_params'', flat_event_params_schema),
   (''flat_events'', flat_events_schema),
   (''flat_items'', flat_items_schema),
   (''flat_user_properties'', flat_user_properties_schema)]"

text \<open>The constructor; \<open>ga_type\<close> is its parameter \<open>type\<close>, which defaults to \<open>DAILY\<close>.\<close>

definition GaExportedNestedDataStorage_init ::
  "string \<Rightarrow> string \<Rightarrow> string \<Rightarrow> string \<Rightarrow> string \<Rightarrow> py_exn + GaExportedNestedDataStorage" where
  "GaExportedNestedDataStorage_init p ds t d ty =
     (case strptime_Ymd d of
        Inl e \<Rightarrow> Inl e
      | Inr dt \<Rightarrow>
          Inr \<lparr> gcp_project = p, dataset = ds, date_shard = d, date = dt, table_name = t,
                ga_type = ty, event_params_flat_fields = [],
                partitioned_table_schemas = initial_partitioned_table_schemas \<rparr>)"

section \<open>Schema reconciliation\<close>

text \<open>
  \<open>set_dynamic_flat_events_schema\<close>.  The two calls to the engine are its inputs: the
  rows of the distinct-keys query, each a pair of \<open>event_params_key\<close> and
  \<open>event_params_type\<close>, and the outcome of \<open>client.get_table\<close>, where \<open>NotFound\<close> is the
  API error with status 404.  Any other exception of either call leaves the method.

  First loop: every field of the existing schema whose name ends in the suffix puts its
  name without the suffix, with its type, into the registry.
\<close>

fun seed_event_params_flat_fields ::
  "SchemaField list \<Rightarrow> (string \<times> string) list \<Rightarrow> (string \<times> string) list" where
  "seed_event_params_flat_fields [] flat_fields = flat_fields"
| "seed_event_params_flat_fields (schema_field # rest) flat_fields =
     (if endswith (name schema_field) EP_SUFFIX
      then seed_event_params_flat_fields rest
             (AList.update
                (take (length (name schema_field) - length EP_SUFFIX) (name schema_field))
                (field_type schema_field) flat_fields)
      else seed_event_params_flat_fields rest flat_fields)"

text \<open>Second loop: a row whose key is not in the registry is added with its type.\<close>

fun add_new_event_params_keys ::
  "(string \<times> string) list \<Rightarrow> (string \<times> string) list \<Rightarrow> (string \<times> string) list" where
  "add_new_event_params_keys [] flat_fields = flat_fields"
| "add_new_event_params_keys ((event_params_key, event_params_type) # rest) flat_fields =
     (if map_of flat_fields event_params_key = None
      then add_new_event_params_keys rest
             (AList.update event_params_key event_params_type flat_fields)
      else add_new_event_params_keys rest flat_fields)"

text \<open>Third loop: one field is appended to the copy of the schema per item of the registry.\<close>

fun append_event_params_fields ::
  "(string \<times> string) list \<Rightarrow> SchemaField list \<Rightarrow> SchemaField list" where
  "append_event_params_fields [] new_schema = new_schema"
| "append_event_params_fields ((ep_key, ep_type) # rest) new_schema =
     append_event_params_fields rest (new_schema @ [SchemaField (ep_key @ EP_SUFFIX) ep_type])"

definition get_original_schema ::
  "py_exn + SchemaField list \<Rightarrow> GaExportedNestedDataStorage \<Rightarrow> py_exn + SchemaField list" where
  "get_original_schema get_table self =
     (case get_table of
        Inr schema \<Rightarrow> Inr schema
      | Inl e \<Rightarrow>
          (if e = GoogleAPICallError 404
           then (case map_of (partitioned_table_schemas self) ''flat_events'' of
                   None \<Rightarrow> Inl KeyError
                 | Some schema \<Rightarrow> Inr schema)
           else Inl e))"

definition set_dynamic_flat_events_schema ::
  "py_exn + (string \<times> string) list \<Rightarrow> py_exn + SchemaField list \<Rightarrow>
   GaExportedNestedDataStorage \<Rightarrow> py_exn + GaExportedNestedDataStorage" where
  "set_dynamic_flat_events_schema query_result get_table self =
     (case query_result of
        Inl e \<Rightarrow> Inl e
      | Inr event_params_rows \<Rightarrow>
          (case get_original_schema get_table self of
             Inl e \<Rightarrow> Inl e
           | Inr original_schema \<Rightarrow>
               (let fields1 = seed_event_params_flat_fields original_schema
                                (event_params_flat_fields self);
                    fields2 = add_new_event_params_keys event_params_rows fields1;
                    new_schema = append_event_params_fields fields2 original_schema
                in Inr (self \<lparr> event_params_flat_fields := fields2,
                                partitioned_table_schemas :=
                                  AList.update ''flat_events'' new_schema
                                    (partitioned_table_schemas self) \<rparr>))))"

text \<open>
  For stating the order of the registry: the distinct elements of a list, in the order of
  their first occurrence.
\<close>

definition first_seen :: "'a list \<Rightarrow> 'a list" where
  "first_seen xs = rev (remdups (rev xs))"

text \<open>A storage object as the constructor leaves it, for evaluating the methods.\<close>

definition example_storage :: GaExportedNestedDataStorage where
  "example_storage =
     \<lparr> gcp_project = ''my-project'', dataset = ''analytics_123'', date_shard = ''20240101'',
       date = Datetime 2024 1 1, table_name = ''events'', ga_type = ''DAILY'',
       event_params_flat_fields = [],
       partitioned_table_schemas = initial_partitioned_table_schemas \<rparr>"

section \<open>Query texts\<close>

text \<open>
  The four flattening queries are built as text.  \<open>"..." % (...)\<close> and \<open>str.format\<close> with
  string arguments are concatenation.  The apostrophe of the SQL text is written
  \<open>apostrophe\<close>.
\<close>

definition apostrophe :: string where
  "apostrophe = [CHR 0x27]"

definition get_unique_event_id :: "string list \<Rightarrow> py_exn + string" where
  \<open>get_unique_event_id fields_of_id =
     (case fields_of_id of
        f0 # f1 # f2 # f3 # _ \<Rightarrow>
          Inr (''CONCAT('' @ f0 @ '', "_", '' @ f1 @ '', "_", '' @ f2 @ '', "_", '' @ f3
               @ '') as event_id'')
      | _ \<Rightarrow> Inl IndexError)\<close>

text \<open>The shard that is read: \<open>`{p}.{ds}.{t}_{d}`\<close>.\<close>

definition source_table :: "GaExportedNestedDataStorage \<Rightarrow> string" where
  "source_table self =
     ''`'' @ gcp_project self @ ''.'' @ dataset self @ ''.'' @ table_name self @ ''_''
     @ date_shard self @ ''`''"

text \<open>\<open>",%s as %s" % (f, f.replace(".", "_"))\<close>, and the loop that adds it for a list.\<close>

definition field_as_column :: "string \<Rightarrow> string" where
  "field_as_column f = '','' @ f @ '' as '' @ replace_char (CHR ''.'') (CHR ''_'') f"

fun add_fields :: "string \<Rightarrow> string list \<Rightarrow> string" where
  "add_fields qry [] = qry"
| "add_fields qry (f # rest) = add_fields (qry @ field_as_column f) rest"

text \<open>
  The value of a key and value structure as one text:
  \<open>CONCAT(IFNULL(%s, ''), IFNULL(CAST(%s AS STRING), ''), ...)\<close> over the four value slots.
\<close>

definition coalesced_value :: "string \<Rightarrow> string \<Rightarrow> string \<Rightarrow> string \<Rightarrow> string" where
  "coalesced_value f1 f2 f3 f4 =
     ''CONCAT(IFNULL('' @ f1 @ '', '' @ apostrophe @ apostrophe
     @ ''), IFNULL(CAST('' @ f2 @ '' AS STRING), '' @ apostrophe @ apostrophe
     @ ''), IFNULL(CAST('' @ f3 @ '' AS STRING), '' @ apostrophe @ apostrophe
     @ ''), IFNULL(CAST('' @ f4 @ '' AS STRING), '' @ apostrophe @ apostrophe @ ''))''"

definition get_event_params_query :: "GaExportedNestedDataStorage \<Rightarrow> py_exn + string" where
  "get_event_params_query self =
     (case get_unique_event_id unique_event_id_fields of
        Inl e \<Rightarrow> Inl e
      | Inr event_id \<Rightarrow>
          Inr (''SELECT '' @ event_id
               @ field_as_column (event_params_fields ! 0)
               @ '','' @ coalesced_value (event_params_fields ! 1) (event_params_fields ! 2)
                          (event_params_fields ! 3) (event_params_fields ! 4)
               @ '' AS event_params_value''
               @ '' FROM '' @ source_table self
               @ '',UNNEST (event_params) AS event_params''))"

definition get_user_properties_query :: "GaExportedNestedDataStorage \<Rightarrow> py_exn + string" where
  "get_user_properties_query self =
     (case get_unique_event_id unique_event_id_fields of
        Inl e \<Rightarrow> Inl e
      | Inr event_id \<Rightarrow>
          Inr (''SELECT '' @ event_id
               @ field_as_column (user_properties_fields ! 0)
               @ '','' @ coalesced_value (user_properties_fields ! 1) (user_properties_fields ! 2)
                          (user_properties_fields ! 3) (user_properties_fields ! 4)
               @ '' AS user_properties_value''
               @ field_as_column (user_properties_fields ! 5)
               @ '' FROM '' @ source_table self
               @ '',UNNEST (user_properties) AS user_properties''))"

definition get_items_query :: "GaExportedNestedDataStorage \<Rightarrow> py_exn + string" where
  "get_items_query self =
     (case get_unique_event_id unique_event_id_fields of
        Inl e \<Rightarrow> Inl e
      | Inr event_id \<Rightarrow>
          Inr (add_fields (''SELECT '' @ event_id) items_fields
               @ '' FROM '' @ source_table self
               @ '',UNNEST (items) AS items''))"

text \<open>
  The loop over the registry in \<open>get_events_query\<close>: the type \<open>INTEGER\<close> is replaced by
  \<open>int\<close>, and the column reads the value slot named by the lowered type.
\<close>

fun add_event_params_columns :: "string \<Rightarrow> (string \<times> string) list \<Rightarrow> string" where
  "add_event_params_columns qry [] = qry"
| "add_event_params_columns qry ((key, f_type) # rest) =
     (let f_type' = (if f_type = ''INTEGER'' then ''int'' else f_type) in
      add_event_params_columns
        (qry @ '',(SELECT value.'' @ lower f_type'
             @ ''_value FROM UNNEST(events.event_params) WHERE key = ''
             @ apostrophe @ key @ apostrophe @ '') AS '' @ key @ EP_SUFFIX)
        rest)"

definition get_events_query :: "GaExportedNestedDataStorage \<Rightarrow> py_exn + string" where
  "get_events_query self =
     (case get_unique_event_id unique_event_id_fields of
        Inl e \<Rightarrow> Inl e
      | Inr event_id \<Rightarrow>
          Inr (add_event_params_columns
                 (add_fields (''SELECT '' @ event_id) events_fields)
                 (event_params_flat_fields self)
               @ '' FROM '' @ source_table self @ '' as events''))"

section \<open>The value of the event identifier\<close>

text \<open>
  \<open>get_unique_event_id\<close> emits a call of the engine's \<open>CONCAT\<close> on columns and string
  literals.  To speak about the identifier of an event, the call is given its meaning: on
  a row, a column stands for its value as text (the engine casts the integer
  \<open>event_timestamp\<close> to its decimal text), a literal for itself, and \<open>CONCAT\<close> joins its
  arguments.  A row is the list of its columns that are not \<open>NULL\<close>, each with its value; a
  column that is \<open>NULL\<close> is not in the list and has no value, and \<open>CONCAT\<close> has no value
  as soon as one of its arguments has none, as the engine's \<open>CONCAT\<close> is \<open>NULL\<close> then.
\<close>

datatype sql_arg = Column string | StringLiteral string

fun render_arg :: "sql_arg \<Rightarrow> string" where
  \<open>render_arg (Column f) = f\<close>
| \<open>render_arg (StringLiteral s) = ''"'' @ s @ ''"''\<close>

fun join :: "string \<Rightarrow> string list \<Rightarrow> string" where
  "join sep [] = []"
| "join sep [x] = x"
| "join sep (x # y # ys) = x @ sep @ join sep (y # ys)"

definition render_concat :: "sql_arg list \<Rightarrow> string" where
  "render_concat args = ''CONCAT('' @ join '', '' (map render_arg args) @ '')''"

fun eval_arg :: "(string \<times> string) list \<Rightarrow> sql_arg \<Rightarrow> string option" where
  "eval_arg row (Column f) = map_of row f"
| "eval_arg row (StringLiteral s) = Some s"

fun eval_concat :: "(string \<times> string) list \<Rightarrow> sql_arg list \<Rightarrow> string option" where
  "eval_concat row [] = Some []"
| "eval_concat row (a # args) =
     (case eval_arg row a of
        None \<Rightarrow> None
      | Some v \<Rightarrow> (case eval_concat row args of None \<Rightarrow> None | Some w \<Rightarrow> Some (v @ w)))"

definition unique_event_id_args :: "string list \<Rightarrow> sql_arg list" where
  "unique_event_id_args fields_of_id =
     [Column (fields_of_id ! 0), StringLiteral ''_'', Column (fields_of_id ! 1), StringLiteral ''_'',
      Column (fields_of_id ! 2), StringLiteral ''_'', Column (fields_of_id ! 3)]"

definition event_id :: "(string \<times> string) list \<Rightarrow> string option" where
  "event_id row = eval_concat row (unique_event_id_args unique_event_id_fields)"

definition separator_free :: "string \<Rightarrow> bool" where
  "separator_free s = (CHR ''_'' \<notin> set s)"

section \<open>The dataframe of the rolling load\<close>

text \<open>
  A dataframe is the list of its columns in order, each with its label.  A column is the
  values \<open>Values x\<close> that the query returned, or the scalar \<open>Broadcast d\<close> assigned to
  every row, or what one of the four pandas conversions of \<open>transform_dataframe\<close> gave:
  \<open>astype(str)\<close>, \<open>astype(float)\<close>, \<open>pd.Series(list(...), dtype=pd.Int64Dtype())\<close> and
  \<open>.dt.date\<close>.
\<close>

datatype 'a series =
    Values 'a
  | Broadcast datetime
  | AsType_str "'a series"
  | AsType_float "'a series"
  | As_Int64 "'a series"
  | Dt_date "'a series"

type_synonym 'a dataframe = "(string \<times> 'a series) list"

text \<open>
  A conversion can raise: \<open>astype(float)\<close> a \<open>ValueError\<close> on a text that is no number,
  the \<open>Int64\<close> series a \<open>TypeError\<close> on a value that is no integer, \<open>.dt\<close> an
  \<open>AttributeError\<close> on a column that holds no datetimes.  Which conversion raises on which
  column is decided by pandas from the values; like the outcomes of the engine it is an
  input of the model: \<open>pd conv s\<close> is the exception that \<open>conv\<close> raises on the column
  \<open>s\<close>, or \<open>None\<close> where pandas returns the converted column.
\<close>

datatype conversion = Astype_str | Astype_float | Series_Int64 | Dt_accessor_date

type_synonym 'a pandas = "conversion \<Rightarrow> 'a series \<Rightarrow> py_exn option"

definition converted :: "conversion \<Rightarrow> 'a series \<Rightarrow> 'a series" where
  "converted conv s =
     (case conv of
        Astype_str \<Rightarrow> AsType_str s
      | Astype_float \<Rightarrow> AsType_float s
      | Series_Int64 \<Rightarrow> As_Int64 s
      | Dt_accessor_date \<Rightarrow> Dt_date s)"

definition convert :: "'a pandas \<Rightarrow> conversion \<Rightarrow> 'a series \<Rightarrow> py_exn + 'a series" where
  "convert pd conv s = (case pd conv s of Some e \<Rightarrow> Inl e | None \<Rightarrow> Inr (converted conv s))"

text \<open>A pandas given by the list of the conversions that raise, each with its exception.\<close>

definition raises_of :: "((conversion \<times> 'a series) \<times> py_exn) list \<Rightarrow> 'a pandas" where
  "raises_of raising conv s = map_of raising (conv, s)"

text \<open>
  The chain of \<open>if\<close> and \<open>elif\<close> on the type of the destination field: the conversion
  that its branch applies, and none for any other type.
\<close>

definition conversion_for :: "string \<Rightarrow> conversion option" where
  "conversion_for dest_field_type =
     (if dest_field_type = ''STRING'' then Some Astype_str
      else if dest_field_type = ''FLOAT'' then Some Astype_float
      else if dest_field_type = ''INTEGER'' then Some Series_Int64
      else if dest_field_type = ''DATE'' then Some Dt_accessor_date
      else None)"

text \<open>
  The inner loop, over the fields of the schema, for one column of the dataframe.  A branch
  reads the column, converts it and assigns the result to the same label; an exception of
  the conversion leaves the loops.
\<close>

fun coerce_column ::
  "'a pandas \<Rightarrow> string \<Rightarrow> SchemaField list \<Rightarrow> 'a dataframe \<Rightarrow> py_exn + 'a dataframe" where
  "coerce_column pd column [] dataframe = Inr dataframe"
| "coerce_column pd column (dest_bq_field # rest) dataframe =
     (if name dest_bq_field = column
      then (case conversion_for (field_type dest_bq_field) of
              None \<Rightarrow> coerce_column pd column rest dataframe
            | Some conv \<Rightarrow>
                (case map_of dataframe column of
                   None \<Rightarrow> Inl KeyError
                 | Some s \<Rightarrow>
                     (case convert pd conv s of
                        Inl e \<Rightarrow> Inl e
                      | Inr s' \<Rightarrow>
                          coerce_column pd column rest (AList.update column s' dataframe))))
      else coerce_column pd column rest dataframe)"

text \<open>The outer loop, over the labels of the dataframe.\<close>

fun coerce_columns ::
  "'a pandas \<Rightarrow> string list \<Rightarrow> SchemaField list \<Rightarrow> 'a dataframe \<Rightarrow> py_exn + 'a dataframe" where
  "coerce_columns pd [] bq_schema dataframe = Inr dataframe"
| "coerce_columns pd (column # rest) bq_schema dataframe =
     (case coerce_column pd column bq_schema dataframe of
        Inl e \<Rightarrow> Inl e
      | Inr dataframe' \<Rightarrow> coerce_columns pd rest bq_schema dataframe')"

text \<open>
  \<open>transform_dataframe\<close>.  The assignment of \<open>self.date\<close> replaces the column
  \<open>event_date\<close> where the query returned one and adds it at the end otherwise, so the
  dataframe has a column when the loops start; with no schema for the table type the inner
  loop then iterates over \<open>None\<close>, a \<open>TypeError\<close>.  At the end the partitioning column is
  taken out and inserted at position 0.
\<close>

definition transform_dataframe ::
  "'a pandas \<Rightarrow> GaExportedNestedDataStorage \<Rightarrow> 'a dataframe \<Rightarrow> string \<Rightarrow>
   py_exn + 'a dataframe" where
  "transform_dataframe pd self dataframe table_type =
     (let dataframe1 = AList.update partitioning_column (Broadcast (date self)) dataframe in
      case map_of (partitioned_table_schemas self) table_type of
        None \<Rightarrow> Inl TypeError
      | Some bq_schema \<Rightarrow>
          (case coerce_columns pd (map fst dataframe1) bq_schema dataframe1 of
             Inl e \<Rightarrow> Inl e
           | Inr dataframe2 \<Rightarrow>
               (case map_of dataframe2 partitioning_column of
                  None \<Rightarrow> Inl KeyError
                | Some col \<Rightarrow>
                    Inr ((partitioning_column, col)
                         # AList.delete partitioning_column dataframe2))))"

text \<open>
  For stating what a column becomes: the conversions of a list of field types applied one
  after the other, as the inner loop applies them for the fields that carry the name of
  the column.
\<close>

fun coerce_all :: "'a pandas \<Rightarrow> string list \<Rightarrow> 'a series \<Rightarrow> py_exn + 'a series" where
  "coerce_all pd [] s = Inr s"
| "coerce_all pd (dest_field_type # rest) s =
     (case conversion_for dest_field_type of
        None \<Rightarrow> coerce_all pd rest s
      | Some conv \<Rightarrow>
          (case convert pd conv s of Inl e \<Rightarrow> Inl e | Inr s' \<Rightarrow> coerce_all pd rest s'))"

section \<open>Running a query job\<close>

text \<open>
  The calls that \<open>run_query_job\<close> makes, in order: a query with its text and, for the
  flattening query of a sharded output, its destination, written with \<open>WRITE_TRUNCATE\<close>;
  the load of a dataframe with its destination and schema, written with \<open>WRITE_APPEND\<close>;
  and the two logging calls of the exception handler.
\<close>

datatype 'a bq_call =
    Query string "string option"
  | Load "'a dataframe" string "SchemaField list option"
  | LogWarning
  | LogCritical

text \<open>
  What the engine does in one run: whether starting the flattening query raises, what
  waiting for it and converting its result gives, whether the deletion raises (at its
  start or while waiting for it), and whether the load raises.
\<close>

record 'a bq_client =
  query_raises :: "py_exn option"
  query_result :: "py_exn + 'a dataframe"
  delete_raises :: "py_exn option"
  load_raises :: "py_exn option"

text \<open>\<open>re.search(r'20\d\d\-\d\d\-\d\d', s)\<close>: the first place where the pattern matches.\<close>

definition matches_date_here :: "string \<Rightarrow> bool" where
  "matches_date_here s =
     (case s of
        a # b # c # d # e # f # g # h # i # j # _ \<Rightarrow>
          a = CHR ''2'' \<and> b = CHR ''0'' \<and> isdigit c \<and> isdigit d \<and> e = CHR ''-''
          \<and> isdigit f \<and> isdigit g \<and> h = CHR ''-'' \<and> isdigit i \<and> isdigit j
      | _ \<Rightarrow> False)"

fun re_search_date :: "string \<Rightarrow> string option" where
  "re_search_date [] = None"
| "re_search_date (c # cs) =
     (if matches_date_here (c # cs) then Some (take 10 (c # cs)) else re_search_date cs)"

definition query_delete :: "GaExportedNestedDataStorage \<Rightarrow> string \<Rightarrow> string \<Rightarrow> string" where
  \<open>query_delete self table_type date_string =
     [CHR 0x0A] @ replicate 27 (CHR '' '') @ ''DELETE FROM `'' @ gcp_project self @ ''.''
     @ dataset self @ ''.'' @ table_type @ ''` WHERE event_date = "'' @ date_string @ ''";''
     @ [CHR 0x0A] @ replicate 23 (CHR '' '')\<close>

text \<open>
  The \<open>try\<close> block with its handler.  A date outside the years 2000 to 2099 makes
  \<open>re.search\<close> return \<open>None\<close>, and \<open>.group\<close> raises.  Every exception of the block reaches
  the handler, which reads \<open>e.code\<close>: an API error has one and is only logged, as a
  warning for the status 404 and as critical otherwise, and the method goes on; an
  exception without this attribute makes the handler itself raise \<open>AttributeError\<close>.
\<close>

definition delete_partition_handler :: "py_exn \<Rightarrow> 'a bq_call list \<times> py_exn option" where
  "delete_partition_handler e =
     (case e of
        GoogleAPICallError code \<Rightarrow>
          (if code = 404 then ([LogWarning], None) else ([LogCritical], None))
      | _ \<Rightarrow> ([], Some AttributeError))"

definition delete_partition ::
  "'a bq_client \<Rightarrow> GaExportedNestedDataStorage \<Rightarrow> string \<Rightarrow> 'a bq_call list \<times> py_exn option" where
  "delete_partition client self table_type =
     (case re_search_date (str_datetime (date self)) of
        None \<Rightarrow> delete_partition_handler AttributeError
      | Some date_string \<Rightarrow>
          (let calls = [Query (query_delete self table_type date_string) None] in
           case delete_raises client of
             None \<Rightarrow> (calls, None)
           | Some e \<Rightarrow>
               (case delete_partition_handler e of (logged, raised) \<Rightarrow> (calls @ logged, raised))))"

text \<open>
  \<open>run_query_job\<close> returns the calls it made and the exception that left it, if any.
  Its first argument is what pandas does in \<open>transform_dataframe\<close>.
\<close>

definition run_query_job ::
  "'a pandas \<Rightarrow> 'a bq_client \<Rightarrow> GaExportedNestedDataStorage \<Rightarrow> string \<Rightarrow> string \<Rightarrow> bool \<Rightarrow>
   bool \<Rightarrow> 'a bq_call list \<times> py_exn option" where
  "run_query_job pd client self query table_type sharded_output_required
     partitioned_output_required =
     (let table_name_sharded = gcp_project self @ ''.'' @ dataset self @ ''.'' @ table_type @ ''_''
                               @ date_shard self;
          flatten = [Query query (if sharded_output_required then Some table_name_sharded else None)]
      in
      case query_raises client of
        Some e \<Rightarrow> (flatten, Some e)
      | None \<Rightarrow>
          (if \<not> partitioned_output_required then (flatten, None)
           else
             (case query_result client of
                Inl e \<Rightarrow> (flatten, Some e)
              | Inr dataframe \<Rightarrow>
                  (case transform_dataframe pd self dataframe table_type of
                     Inl e \<Rightarrow> (flatten, Some e)
                   | Inr dataframe' \<Rightarrow>
                       (case delete_partition client self table_type of
                          (deletion, Some e) \<Rightarrow> (flatten @ deletion, Some e)
                        | (deletion, None) \<Rightarrow>
                            (let table_name_partitioned =
                                   gcp_project self @ ''.'' @ dataset self @ ''.'' @ table_type
                             in (flatten @ deletion
                                 @ [Load dataframe' table_name_partitioned
                                      (map_of (partitioned_table_schemas self) table_type)],
                                 load_raises client)))))))"

section \<open>Properties of the sanitization\<close>

lemma valid_field_name_loop_length:
  "length (valid_field_name_loop r s) = length r + length s"
  by (induction s arbitrary: r) auto

lemma valid_field_name_loop_map:
  "valid_field_name_loop r s = r @ map (\<lambda>c. if isalnum c then c else CHR ''_'') s"
  by (induction s arbitrary: r) auto

text \<open>
  C8.  The sanitization maps \<open>UTM Source!\<close> to \<open>utm_source_\<close> and \<open>1stVisit\<close> to
  \<open>_1stvisit\<close>, and every key of 310 characters gives a name of exactly 300 characters.
\<close>

theorem sanitization_examples:
  "create_valid_bigquery_field_name ''UTM Source!'' = Inr ''utm_source_''
   \<and> create_valid_bigquery_field_name ''1stVisit'' = Inr ''_1stvisit''
   \<and> (\<forall>p. length p = 310 \<longrightarrow>
        (\<exists>r. create_valid_bigquery_field_name p = Inr r \<and> length r = 300))"
proof (intro conjI allI impI)
  show "create_valid_bigquery_field_name ''UTM Source!'' = Inr ''utm_source_''"
    by code_simp
  show "create_valid_bigquery_field_name ''1stVisit'' = Inr ''_1stvisit''"
    by code_simp
next
  fix p :: string
  assume len: "length p = 310"
  define r where "r = valid_field_name_loop '''' (lower p)"
  have lr: "length r = 310"
    by (simp add: r_def valid_field_name_loop_length lower_def len)
  then obtain r0 rs where r: "r = r0 # rs"
    by (cases r) auto
  show "\<exists>r. create_valid_bigquery_field_name p = Inr r \<and> length r = 300"
    using lr r unfolding create_valid_bigquery_field_name_def r_def [symmetric]
    by (auto simp: Let_def)
qed

theorem sanitization_examples_witness:
  "length (replicate 310 (CHR ''k'')) = 310
   \<and> (\<exists>r. create_valid_bigquery_field_name (replicate 310 (CHR ''k'')) = Inr r
        \<and> length r = 300)"
  using sanitization_examples by simp

text \<open>
  C10.  On every non-empty key the sanitization returns a name of at most 300 characters;
  on the empty key it raises \<open>IndexError\<close>, from reading \<open>r[0]\<close>.
\<close>

theorem sanitization_total_on_nonempty:
  "(p \<noteq> [] \<longrightarrow> (\<exists>r. create_valid_bigquery_field_name p = Inr r \<and> length r \<le> 300))
   \<and> create_valid_bigquery_field_name [] = Inl IndexError"
proof (intro conjI impI)
  assume ne: "p \<noteq> []"
  define r where "r = valid_field_name_loop '''' (lower p)"
  have "length r = length p"
    by (simp add: r_def valid_field_name_loop_length lower_def)
  with ne obtain r0 rs where r: "r = r0 # rs"
    by (cases r) auto
  show "\<exists>r. create_valid_bigquery_field_name p = Inr r \<and> length r \<le> 300"
    using r unfolding create_valid_bigquery_field_name_def r_def [symmetric]
    by (auto simp: Let_def)
next
  show "create_valid_bigquery_field_name [] = Inl IndexError"
    by (simp add: create_valid_bigquery_field_name_def lower_def)
qed

theorem sanitization_total_on_nonempty_witness:
  "''9 lives'' \<noteq> []
   \<and> (\<exists>r. create_valid_bigquery_field_name ''9 lives'' = Inr r \<and> length r \<le> 300)
   \<and> create_valid_bigquery_field_name [] = Inl IndexError"
  using sanitization_total_on_nonempty [of "''9 lives''"] by simp

section \<open>Properties of schema reconciliation\<close>

lemma append_event_params_fields_eq:
  "append_event_params_fields reg sch = sch @ map (\<lambda>(k, t). SchemaField (k @ EP_SUFFIX) t) reg"
  by (induction reg arbitrary: sch) auto

lemma update_absent: "map_of al k = None \<Longrightarrow> AList.update k v al = al @ [(k, v)]"
  by (induction al) auto

lemma remdups_snoc:
  "remdups (xs @ [x]) = filter (\<lambda>y. y \<noteq> x) (remdups xs) @ [x]"
  by (induction xs) auto

lemma first_seen_Cons:
  "first_seen (x # xs) = x # first_seen (filter (\<lambda>y. y \<noteq> x) xs)"
  by (simp add: first_seen_def remdups_snoc rev_filter remdups_filter)

lemma set_first_seen: "set (first_seen xs) = set xs"
  by (simp add: first_seen_def)

lemma distinct_first_seen: "distinct (first_seen xs)"
  by (simp add: first_seen_def)

lemma map_of_Cons_other:
  "k \<notin> set zs \<Longrightarrow>
   map (\<lambda>k'. (k', the (map_of ((k, t) # rows) k'))) zs = map (\<lambda>k'. (k', the (map_of rows k'))) zs"
  by (induction zs) auto

lemma add_new_event_params_keys_eq:
  "add_new_event_params_keys rows reg =
     reg @ map (\<lambda>k. (k, the (map_of rows k)))
             (first_seen (filter (\<lambda>k. map_of reg k = None) (map fst rows)))"
proof (induction rows arbitrary: reg)
  case Nil
  then show ?case by (simp add: first_seen_def)
next
  case (Cons row rows)
  obtain k t where row: "row = (k, t)" by (cases row)
  let ?P = "\<lambda>k'. map_of reg k' = None"
  show ?case
  proof (cases "map_of reg k = None")
    case True
    let ?P' = "\<lambda>k'. map_of (reg @ [(k, t)]) k' = None"
    let ?zs = "first_seen (filter ?P' (map fst rows))"
    have flt: "filter (\<lambda>y. y \<noteq> k) (filter ?P (map fst rows)) = filter ?P' (map fst rows)"
      by (auto simp: map_add_def split: option.splits intro!: filter_cong)
    have notin: "k \<notin> set ?zs"
      by (auto simp: set_first_seen map_add_def split: option.splits)
    have "first_seen (filter ?P (map fst (row # rows))) = first_seen (k # filter ?P (map fst rows))"
      using True by (simp add: row)
    also have "\<dots> = k # ?zs"
      by (simp only: first_seen_Cons flt)
    finally have keys: "first_seen (filter ?P (map fst (row # rows))) = k # ?zs" .
    have "add_new_event_params_keys (row # rows) reg = add_new_event_params_keys rows (reg @ [(k, t)])"
      using True by (simp add: row update_absent)
    also have "\<dots> = (reg @ [(k, t)]) @ map (\<lambda>k'. (k', the (map_of rows k'))) ?zs"
      by (rule Cons.IH)
    also have "\<dots> = reg @ map (\<lambda>k'. (k', the (map_of (row # rows) k'))) (k # ?zs)"
      using map_of_Cons_other [OF notin, of t rows] by (simp add: row)
    finally show ?thesis
      by (simp only: keys)
  next
    case False
    let ?zs = "first_seen (filter ?P (map fst rows))"
    have notin: "k \<notin> set ?zs"
      using False by (auto simp: set_first_seen)
    have keys: "first_seen (filter ?P (map fst (row # rows))) = ?zs"
      using False by (auto simp: row)
    have "add_new_event_params_keys (row # rows) reg = add_new_event_params_keys rows reg"
      using False by (auto simp: row)
    also have "\<dots> = reg @ map (\<lambda>k'. (k', the (map_of rows k'))) ?zs"
      by (rule Cons.IH)
    also have "\<dots> = reg @ map (\<lambda>k'. (k', the (map_of (row # rows) k'))) ?zs"
      using map_of_Cons_other [OF notin, of t rows] by (simp add: row)
    finally show ?thesis
      by (simp only: keys)
  qed
qed

lemma endswith_split:
  "endswith n suf \<Longrightarrow> n = take (length n - length suf) n @ suf"
  unfolding endswith_def by (metis append_take_drop_id)

lemma seed_map_of_other:
  "(\<forall>g \<in> set sch. endswith (name g) EP_SUFFIX \<longrightarrow>
       take (length (name g) - length EP_SUFFIX) (name g) \<noteq> k)
   \<Longrightarrow> map_of (seed_event_params_flat_fields sch reg) k = map_of reg k"
  by (induction sch arbitrary: reg) (auto simp: update_conv')

lemma seed_map_of_schema:
  "f \<in> set sch \<Longrightarrow> endswith (name f) EP_SUFFIX \<Longrightarrow>
   \<exists>g \<in> set sch. name g = name f \<and>
      map_of (seed_event_params_flat_fields sch reg)
        (take (length (name f) - length EP_SUFFIX) (name f)) = Some (field_type g)"
proof (induction sch arbitrary: reg f)
  case Nil
  then show ?case by simp
next
  case (Cons h rest)
  let ?raw = "\<lambda>g. take (length (name g) - length EP_SUFFIX) (name g)"
  show ?case
  proof (cases "\<exists>g \<in> set rest. endswith (name g) EP_SUFFIX \<and> ?raw g = ?raw f")
    case True
    then obtain g where g: "g \<in> set rest" "endswith (name g) EP_SUFFIX" "?raw g = ?raw f"
      by blast
    have nm: "name g = name f"
      using endswith_split [OF g(2)] endswith_split [OF Cons.prems(2)] g(3) by metis
    have "\<exists>g' \<in> set rest. name g' = name g \<and>
            map_of (seed_event_params_flat_fields rest reg') (?raw g) = Some (field_type g')" for reg'
      by (rule Cons.IH [OF g(1) g(2)])
    then obtain g' where g': "g' \<in> set rest" "name g' = name g"
      "map_of (seed_event_params_flat_fields rest
                 (if endswith (name h) EP_SUFFIX
                  then AList.update (?raw h) (field_type h) reg else reg)) (?raw g)
       = Some (field_type g')"
      by blast
    have "map_of (seed_event_params_flat_fields (h # rest) reg) (?raw f) = Some (field_type g')"
      using g'(3) g(3) by (simp split: if_splits)
    then show ?thesis
      using g'(1,2) nm by auto
  next
    case False
    then have fh: "f = h" using Cons.prems by auto
    have other: "map_of (seed_event_params_flat_fields rest reg') (?raw f) = map_of reg' (?raw f)" for reg'
      using False by (intro seed_map_of_other) auto
    show ?thesis
      using Cons.prems(2) fh other by (simp add: update_conv')
  qed
qed

lemma example_init:
  "GaExportedNestedDataStorage_init ''my-project'' ''analytics_123'' ''events'' ''20240101''
     ''DAILY'' = Inr example_storage"
  by code_simp

lemma set_dynamic_flat_events_schema_Inr:
  assumes "get_original_schema get_table self = Inr original_schema"
  shows "set_dynamic_flat_events_schema (Inr rows) get_table self =
     Inr (self \<lparr> event_params_flat_fields :=
                   add_new_event_params_keys rows
                     (seed_event_params_flat_fields original_schema (event_params_flat_fields self)),
                 partitioned_table_schemas :=
                   AList.update ''flat_events''
                     (original_schema @ map (\<lambda>(k, t). SchemaField (k @ EP_SUFFIX) t)
                        (add_new_event_params_keys rows
                          (seed_event_params_flat_fields original_schema (event_params_flat_fields self))))
                     (partitioned_table_schemas self) \<rparr>)"
  using assms by (simp add: set_dynamic_flat_events_schema_def Let_def append_event_params_fields_eq)

text \<open>
  C4.  Whatever rows the source shows, the schema that reconciliation stores for
  \<open>flat_events\<close> is the existing schema followed by further fields: the schema \<open>S\<close> of
  the table when it exists and, when \<open>get_table\<close> raises \<open>NotFound\<close>, the default
  schema \<open>D\<close> of the object.  So no field of the existing schema is removed, retyped or
  moved, and every new field comes after all of them.
\<close>

theorem reconcile_additive_only:
  "(\<exists>self' ext. set_dynamic_flat_events_schema (Inr rows) (Inr S) self = Inr self'
       \<and> map_of (partitioned_table_schemas self') ''flat_events'' = Some (S @ ext))
   \<and> (map_of (partitioned_table_schemas self) ''flat_events'' = Some D \<longrightarrow>
       (\<exists>self' ext.
          set_dynamic_flat_events_schema (Inr rows) (Inl (GoogleAPICallError 404)) self = Inr self'
          \<and> map_of (partitioned_table_schemas self') ''flat_events'' = Some (D @ ext)))"
proof (intro conjI impI)
  have "get_original_schema (Inr S) self = Inr S"
    by (simp add: get_original_schema_def)
  from set_dynamic_flat_events_schema_Inr [OF this, of rows]
  show "\<exists>self' ext. set_dynamic_flat_events_schema (Inr rows) (Inr S) self = Inr self'
       \<and> map_of (partitioned_table_schemas self') ''flat_events'' = Some (S @ ext)"
    by (simp add: update_conv')
next
  assume "map_of (partitioned_table_schemas self) ''flat_events'' = Some D"
  then have "get_original_schema (Inl (GoogleAPICallError 404)) self = Inr D"
    by (simp add: get_original_schema_def)
  from set_dynamic_flat_events_schema_Inr [OF this, of rows]
  show "\<exists>self' ext.
          set_dynamic_flat_events_schema (Inr rows) (Inl (GoogleAPICallError 404)) self = Inr self'
          \<and> map_of (partitioned_table_schemas self') ''flat_events'' = Some (D @ ext)"
    by (simp add: update_conv')
qed

theorem reconcile_additive_only_witness:
  "map_of (partitioned_table_schemas example_storage) ''flat_events'' = Some flat_events_schema
   \<and> (\<exists>self' ext.
          set_dynamic_flat_events_schema (Inr [(''page_title'', ''STRING'')])
            (Inl (GoogleAPICallError 404)) example_storage = Inr self'
          \<and> map_of (partitioned_table_schemas self') ''flat_events''
              = Some (flat_events_schema @ ext))"
proof -
  have h: "map_of (partitioned_table_schemas example_storage) ''flat_events'' = Some flat_events_schema"
    by (simp add: example_storage_def initial_partitioned_table_schemas_def)
  show ?thesis
    using h reconcile_additive_only
      [of "[(''page_title'', ''STRING'')]" S example_storage flat_events_schema for S]
    by blast
qed

text \<open>
  C5.  Let \<open>seeded\<close> be the registry after the loop over the existing schema.  The registry
  that reconciliation leaves is \<open>seeded\<close> followed by the keys of the rows that \<open>seeded\<close>
  lacks, each once, in the order of their first row and with the type of that row.  Every key
  of \<open>seeded\<close> keeps its type, and for every field of the existing schema that carries the
  suffix the registry holds, under the name without the suffix, a type that the existing
  schema gives to that field name: the fingerprints of the rows are not used for it.
\<close>

theorem registry_existing_schema_wins:
  assumes "get_original_schema get_table self = Inr original_schema"
  shows "\<exists>self'. set_dynamic_flat_events_schema (Inr rows) get_table self = Inr self' \<and>
     (let seeded = seed_event_params_flat_fields original_schema (event_params_flat_fields self)
      in event_params_flat_fields self' =
           seeded @ map (\<lambda>k. (k, the (map_of rows k)))
                      (first_seen (filter (\<lambda>k. map_of seeded k = None) (map fst rows)))
         \<and> (\<forall>k. map_of seeded k \<noteq> None \<longrightarrow>
                map_of (event_params_flat_fields self') k = map_of seeded k)
         \<and> (\<forall>f \<in> set original_schema. endswith (name f) EP_SUFFIX \<longrightarrow>
               (\<exists>g \<in> set original_schema. name g = name f \<and>
                  map_of (event_params_flat_fields self')
                    (take (length (name f) - length EP_SUFFIX) (name f)) = Some (field_type g))))"
proof -
  define seeded where
    "seeded = seed_event_params_flat_fields original_schema (event_params_flat_fields self)"
  define new where
    "new = map (\<lambda>k. (k, the (map_of rows k)))
             (first_seen (filter (\<lambda>k. map_of seeded k = None) (map fst rows)))"
  define final where "final = add_new_event_params_keys rows seeded"
  have final: "final = seeded @ new"
    unfolding final_def new_def by (rule add_new_event_params_keys_eq)
  have keep: "map_of final k = map_of seeded k" if "map_of seeded k \<noteq> None" for k
    using that by (auto simp: final map_add_def split: option.splits)
  have sch: "\<exists>g \<in> set original_schema. name g = name f \<and>
               map_of final (take (length (name f) - length EP_SUFFIX) (name f)) = Some (field_type g)"
    if f: "f \<in> set original_schema" "endswith (name f) EP_SUFFIX" for f
  proof -
    from seed_map_of_schema [OF f, of "event_params_flat_fields self"]
    obtain g where g: "g \<in> set original_schema" "name g = name f"
      "map_of seeded (take (length (name f) - length EP_SUFFIX) (name f)) = Some (field_type g)"
      unfolding seeded_def by blast
    with keep [of "take (length (name f) - length EP_SUFFIX) (name f)"] show ?thesis
      by auto
  qed
  have "set_dynamic_flat_events_schema (Inr rows) get_table self =
          Inr (self \<lparr> event_params_flat_fields := final,
                      partitioned_table_schemas :=
                        AList.update ''flat_events''
                          (original_schema @ map (\<lambda>(k, t). SchemaField (k @ EP_SUFFIX) t) final)
                          (partitioned_table_schemas self) \<rparr>)"
    unfolding final_def seeded_def by (rule set_dynamic_flat_events_schema_Inr [OF assms])
  then show ?thesis
    using final keep sch unfolding Let_def seeded_def [symmetric] new_def [symmetric]
    by simp
qed

theorem registry_existing_schema_wins_witness:
  "get_original_schema
      (Inr [SchemaField ''a'' ''STRING'', SchemaField ''b'' ''STRING'',
            SchemaField ''c_ep'' ''STRING'']) example_storage
    = Inr [SchemaField ''a'' ''STRING'', SchemaField ''b'' ''STRING'',
           SchemaField ''c_ep'' ''STRING'']
   \<and> (\<exists>self'. set_dynamic_flat_events_schema
                 (Inr [(''d'', ''INTEGER''), (''c'', ''INTEGER''), (''d'', ''STRING'')])
                 (Inr [SchemaField ''a'' ''STRING'', SchemaField ''b'' ''STRING'',
                       SchemaField ''c_ep'' ''STRING'']) example_storage = Inr self'
          \<and> event_params_flat_fields self' = [(''c'', ''STRING''), (''d'', ''INTEGER'')])"
proof -
  let ?S = "[SchemaField ''a'' ''STRING'', SchemaField ''b'' ''STRING'',
             SchemaField ''c_ep'' ''STRING'']"
  let ?rows = "[(''d'', ''INTEGER''), (''c'', ''INTEGER''), (''d'', ''STRING'')]"
  have h: "get_original_schema (Inr ?S) example_storage = Inr ?S"
    by (simp add: get_original_schema_def)
  have seeded: "seed_event_params_flat_fields ?S (event_params_flat_fields example_storage)
              = [(''c'', ''STRING'')]"
    by code_simp
  have fs: "first_seen (filter (\<lambda>k. map_of [(''c'', ''STRING'')] k = None) (map fst ?rows)) = [''d'']"
    by code_simp
  from registry_existing_schema_wins [OF h, of ?rows] show ?thesis
    unfolding Let_def seeded fs using h by auto
qed

text \<open>
  C1.  The scenario of the specification, evaluated: the existing schema is
  \<open>a\<close>, \<open>b\<close>, \<open>c_ep\<close> of type \<open>STRING\<close>, and the source shows the keys \<open>c\<close> and \<open>d\<close>,
  both with the fingerprint \<open>INTEGER\<close>.  The third loop runs over the whole registry, so
  the stored schema holds \<open>c_ep\<close> twice before \<open>d_ep\<close>.
\<close>

theorem reconcile_scenario_repeats_dynamic_field:
  "\<exists>self'. set_dynamic_flat_events_schema
              (Inr [(''c'', ''INTEGER''), (''d'', ''INTEGER'')])
              (Inr [SchemaField ''a'' ''STRING'', SchemaField ''b'' ''STRING'',
                    SchemaField ''c_ep'' ''STRING'']) example_storage = Inr self'
     \<and> map_of (partitioned_table_schemas self') ''flat_events''
         = Some [SchemaField ''a'' ''STRING'', SchemaField ''b'' ''STRING'',
                 SchemaField ''c_ep'' ''STRING'', SchemaField ''c_ep'' ''STRING'',
                 SchemaField ''d_ep'' ''INTEGER'']"
proof -
  let ?S = "[SchemaField ''a'' ''STRING'', SchemaField ''b'' ''STRING'',
             SchemaField ''c_ep'' ''STRING'']"
  let ?rows = "[(''c'', ''INTEGER''), (''d'', ''INTEGER'')]"
  have h: "get_original_schema (Inr ?S) example_storage = Inr ?S"
    by (simp add: get_original_schema_def)
  have reg: "add_new_event_params_keys ?rows
               (seed_event_params_flat_fields ?S (event_params_flat_fields example_storage))
             = [(''c'', ''STRING''), (''d'', ''INTEGER'')]"
    by code_simp
  show ?thesis
    unfolding set_dynamic_flat_events_schema_Inr [OF h] reg
    by (simp add: update_conv' EP_SUFFIX_def)
qed

section \<open>Properties of the query texts\<close>

lemma add_fields_eq: "add_fields qry fs = qry @ concat (map field_as_column fs)"
  by (induction fs arbitrary: qry) auto

lemma add_event_params_columns_eq:
  "add_event_params_columns qry reg =
     qry @ concat (map (\<lambda>(key, t).
             '',(SELECT value.'' @ (if t = ''INTEGER'' then ''int_value'' else lower t @ ''_value'')
             @ '' FROM UNNEST(events.event_params) WHERE key = '' @ apostrophe @ key @ apostrophe
             @ '') AS '' @ key @ ''_ep'') reg)"
proof (induction reg arbitrary: qry)
  case Nil
  then show ?case by simp
next
  case (Cons entry reg)
  obtain key t where entry: "entry = (key, t)" by (cases entry)
  have int: "lower ''int'' = ''int''"
    by code_simp
  show ?case
    by (simp add: entry Cons.IH Let_def int EP_SUFFIX_def)
qed

lemma get_unique_event_id_render:
  "get_unique_event_id unique_event_id_fields =
     Inr (render_concat (unique_event_id_args unique_event_id_fields) @ '' as event_id'')"
  by (simp add: get_unique_event_id_def unique_event_id_fields_def render_concat_def
      unique_event_id_args_def)

text \<open>
  C9.  The events query is the fixed columns followed by one column per entry of the
  registry, in the order of the registry.  The column of an entry reads the value slot
  whose name is the lowered type of the entry followed by \<open>_value\<close>, except that the type
  \<open>INTEGER\<close> reads \<open>int_value\<close>.  For the fingerprint \<open>STRINGINTEGER\<close> this is the slot
  \<open>stringinteger_value\<close>, which is none of the four value slots.
\<close>

theorem events_query_value_slot:
  "let slot = (\<lambda>t. if t = ''INTEGER'' then ''int_value'' else lower t @ ''_value'');
       column = (\<lambda>(key, t). '',(SELECT value.'' @ slot t
                   @ '' FROM UNNEST(events.event_params) WHERE key = '' @ apostrophe @ key
                   @ apostrophe @ '') AS '' @ key @ ''_ep'')
   in get_events_query self =
        Inr (''SELECT '' @ render_concat (unique_event_id_args unique_event_id_fields)
             @ '' as event_id'' @ concat (map field_as_column events_fields)
             @ concat (map column (event_params_flat_fields self))
             @ '' FROM '' @ source_table self @ '' as events'')
      \<and> slot ''STRINGINTEGER'' = ''stringinteger_value''
      \<and> slot ''STRINGINTEGER'' \<notin> {''string_value'', ''int_value'', ''float_value'', ''double_value''}"
proof -
  have low: "lower ''STRINGINTEGER'' = ''stringinteger''"
    by code_simp
  show ?thesis
    unfolding Let_def
    by (simp add: get_events_query_def get_unique_event_id_render add_fields_eq
        add_event_params_columns_eq low)
qed

lemma items_columns_text:
  "concat (map field_as_column items_fields) =
      '',items.item_id as items_item_id'' @ '',items.item_name as items_item_name''
      @ '',items.item_brand as items_item_brand''
      @ '',items.item_variant as items_item_variant''
      @ '',items.item_category as items_item_category''
      @ '',items.item_category2 as items_item_category2''
      @ '',items.item_category3 as items_item_category3''
      @ '',items.item_category4 as items_item_category4''
      @ '',items.item_category5 as items_item_category5''
      @ '',items.price_in_usd as items_price_in_usd'' @ '',items.price as items_price''
      @ '',items.quantity as items_quantity''
      @ '',items.item_revenue_in_usd as items_item_revenue_in_usd''
      @ '',items.item_revenue as items_item_revenue''
      @ '',items.item_refund_in_usd as items_item_refund_in_usd''
      @ '',items.item_refund as items_item_refund'' @ '',items.coupon as items_coupon''
      @ '',items.affiliation as items_affiliation''
      @ '',items.location_id as items_location_id''
      @ '',items.item_list_id as items_item_list_id''
      @ '',items.item_list_name as items_item_list_name''
      @ '',items.item_list_index as items_item_list_index''
      @ '',items.promotion_id as items_promotion_id''
      @ '',items.promotion_name as items_promotion_name''
      @ '',items.creative_name as items_creative_name''
      @ '',items.creative_slot as items_creative_slot''"
  by code_simp

lemma events_columns_text:
  "concat (map field_as_column events_fields) =
      '',event_date as event_date'' @ '',event_timestamp as event_timestamp''
      @ '',event_name as event_name''
      @ '',event_previous_timestamp as event_previous_timestamp''
      @ '',event_value_in_usd as event_value_in_usd''
      @ '',event_bundle_sequence_id as event_bundle_sequence_id''
      @ '',event_server_timestamp_offset as event_server_timestamp_offset''
      @ '',user_id as user_id'' @ '',user_pseudo_id as user_pseudo_id''
      @ '',privacy_info.analytics_storage as privacy_info_analytics_storage''
      @ '',privacy_info.ads_storage as privacy_info_ads_storage''
      @ '',privacy_info.uses_transient_token as privacy_info_uses_transient_token''
      @ '',user_first_touch_timestamp as user_first_touch_timestamp''
      @ '',user_ltv.revenue as user_ltv_revenue'' @ '',user_ltv.currency as user_ltv_currency''
      @ '',device.category as device_category''
      @ '',device.mobile_brand_name as device_mobile_brand_name''
      @ '',device.mobile_model_name as device_mobile_model_name''
      @ '',device.mobile_marketing_name as device_mobile_marketing_name''
      @ '',device.mobile_os_hardware_model as device_mobile_os_hardware_model''
      @ '',device.operating_system as device_operating_system''
      @ '',device.operating_system_version as device_operating_system_version''
      @ '',device.vendor_id as device_vendor_id''
      @ '',device.advertising_id as device_advertising_id''
      @ '',device.language as device_language''
      @ '',device.is_limited_ad_tracking as device_is_limited_ad_tracking''
      @ '',device.time_zone_offset_seconds as device_time_zone_offset_seconds''
      @ '',device.browser as device_browser''
      @ '',device.browser_version as device_browser_version''
      @ '',device.web_info.browser as device_web_info_browser''
      @ '',device.web_info.browser_version as device_web_info_browser_version''
      @ '',device.web_info.hostname as device_web_info_hostname''
      @ '',geo.continent as geo_continent'' @ '',geo.country as geo_country''
      @ '',geo.region as geo_region'' @ '',geo.city as geo_city''
      @ '',geo.sub_continent as geo_sub_continent'' @ '',geo.metro as geo_metro''
      @ '',app_info.id as app_info_id'' @ '',app_info.version as app_info_version''
      @ '',app_info.install_store as app_info_install_store''
      @ '',app_info.firebase_app_id as app_info_firebase_app_id''
      @ '',app_info.install_source as app_info_install_source''
      @ '',traffic_source.name as traffic_source_name''
      @ '',traffic_source.medium as traffic_source_medium''
      @ '',traffic_source.source as traffic_source_source'' @ '',stream_id as stream_id''
      @ '',platform as platform'' @ '',event_dimensions.hostname as event_dimensions_hostname''
      @ '',ecommerce.total_item_quantity as ecommerce_total_item_quantity''
      @ '',ecommerce.purchase_revenue_in_usd as ecommerce_purchase_revenue_in_usd''
      @ '',ecommerce.purchase_revenue as ecommerce_purchase_revenue''
      @ '',ecommerce.refund_value_in_usd as ecommerce_refund_value_in_usd''
      @ '',ecommerce.refund_value as ecommerce_refund_value''
      @ '',ecommerce.shipping_value_in_usd as ecommerce_shipping_value_in_usd''
      @ '',ecommerce.shipping_value as ecommerce_shipping_value''
      @ '',ecommerce.tax_value_in_usd as ecommerce_tax_value_in_usd''
      @ '',ecommerce.tax_value as ecommerce_tax_value''
      @ '',ecommerce.unique_items as ecommerce_unique_items''
      @ '',ecommerce.transaction_id as ecommerce_transaction_id''"
  by code_simp

lemma unique_event_id_text:
  \<open>get_unique_event_id unique_event_id_fields =
     Inr ''CONCAT(stream_id, "_", user_pseudo_id, "_", event_name, "_", event_timestamp) as event_id''\<close>
  by code_simp

text \<open>
  C6.  The builders only read the object and return text.  The text of each of the four
  queries is fixed by the project, the dataset, the table name, the date shard and the
  registry: it is the text written out below, in which the events query has, after its
  fixed columns, the columns of the registry in the order of the registry.  So two objects
  that agree on these five attributes give the same four texts, whatever their other
  attributes are, and a key that is new to the registry, which a dict puts at its end, gets
  its column after the columns of all keys before it.
\<close>

theorem query_text_deterministic:
  assumes "gcp_project s1 = gcp_project s2" and "dataset s1 = dataset s2"
    and "table_name s1 = table_name s2" and "date_shard s1 = date_shard s2"
    and "event_params_flat_fields s1 = event_params_flat_fields s2"
  shows
    \<open>let ident = ''CONCAT(stream_id, "_", user_pseudo_id, "_", event_name, "_", event_timestamp) as event_id'';
         source = '' FROM `'' @ gcp_project s1 @ ''.'' @ dataset s1 @ ''.'' @ table_name s1 @ ''_''
                  @ date_shard s1 @ ''`'';
         column = (\<lambda>(key, t).
           '',(SELECT value.'' @ (if t = ''INTEGER'' then ''int_value'' else lower t @ ''_value'')
           @ '' FROM UNNEST(events.event_params) WHERE key = '' @ [CHR 0x27] @ key @ [CHR 0x27]
           @ '') AS '' @ key @ ''_ep'');
         items_columns =
           '',items.item_id as items_item_id'' @ '',items.item_name as items_item_name''
           @ '',items.item_brand as items_item_brand''
           @ '',items.item_variant as items_item_variant''
           @ '',items.item_category as items_item_category''
           @ '',items.item_category2 as items_item_category2''
           @ '',items.item_category3 as items_item_category3''
           @ '',items.item_category4 as items_item_category4''
           @ '',items.item_category5 as items_item_category5''
           @ '',items.price_in_usd as items_price_in_usd'' @ '',items.price as items_price''
           @ '',items.quantity as items_quantity''
           @ '',items.item_revenue_in_usd as items_item_revenue_in_usd''
           @ '',items.item_revenue as items_item_revenue''
           @ '',items.item_refund_in_usd as items_item_refund_in_usd''
           @ '',items.item_refund as items_item_refund'' @ '',items.coupon as items_coupon''
           @ '',items.affiliation as items_affiliation''
           @ '',items.location_id as items_location_id''
           @ '',items.item_list_id as items_item_list_id''
           @ '',items.item_list_name as items_item_list_name''
           @ '',items.item_list_index as items_item_list_index''
           @ '',items.promotion_id as items_promotion_id''
           @ '',items.promotion_name as items_promotion_name''
           @ '',items.creative_name as items_creative_name''
           @ '',items.creative_slot as items_creative_slot'';
         events_columns =
           '',event_date as event_date'' @ '',event_timestamp as event_timestamp''
           @ '',event_name as event_name''
           @ '',event_previous_timestamp as event_previous_timestamp''
           @ '',event_value_in_usd as event_value_in_usd''
           @ '',event_bundle_sequence_id as event_bundle_sequence_id''
           @ '',event_server_timestamp_offset as event_server_timestamp_offset''
           @ '',user_id as user_id'' @ '',user_pseudo_id as user_pseudo_id''
           @ '',privacy_info.analytics_storage as privacy_info_analytics_storage''
           @ '',privacy_info.ads_storage as privacy_info_ads_storage''
           @ '',privacy_info.uses_transient_token as privacy_info_uses_transient_token''
           @ '',user_first_touch_timestamp as user_first_touch_timestamp''
           @ '',user_ltv.revenue as user_ltv_revenue''
           @ '',user_ltv.currency as user_ltv_currency''
           @ '',device.category as device_category''
           @ '',device.mobile_brand_name as device_mobile_brand_name''
           @ '',device.mobile_model_name as device_mobile_model_name''
           @ '',device.mobile_marketing_name as device_mobile_marketing_name''
           @ '',device.mobile_os_hardware_model as device_mobile_os_hardware_model''
           @ '',device.operating_system as device_operating_system''
           @ '',device.operating_system_version as device_operating_system_version''
           @ '',device.vendor_id as device_vendor_id''
           @ '',device.advertising_id as device_advertising_id''
           @ '',device.language as device_language''
           @ '',device.is_limited_ad_tracking as device_is_limited_ad_tracking''
           @ '',device.time_zone_offset_seconds as device_time_zone_offset_seconds''
           @ '',device.browser as device_browser''
           @ '',device.browser_version as device_browser_version''
           @ '',device.web_info.browser as device_web_info_browser''
           @ '',device.web_info.browser_version as device_web_info_browser_version''
           @ '',device.web_info.hostname as device_web_info_hostname''
           @ '',geo.continent as geo_continent'' @ '',geo.country as geo_country''
           @ '',geo.region as geo_region'' @ '',geo.city as geo_city''
           @ '',geo.sub_continent as geo_sub_continent'' @ '',geo.metro as geo_metro''
           @ '',app_info.id as app_info_id'' @ '',app_info.version as app_info_version''
           @ '',app_info.install_store as app_info_install_store''
           @ '',app_info.firebase_app_id as app_info_firebase_app_id''
           @ '',app_info.install_source as app_info_install_source''
           @ '',traffic_source.name as traffic_source_name''
           @ '',traffic_source.medium as traffic_source_medium''
           @ '',traffic_source.source as traffic_source_source'' @ '',stream_id as stream_id''
           @ '',platform as platform''
           @ '',event_dimensions.hostname as event_dimensions_hostname''
           @ '',ecommerce.total_item_quantity as ecommerce_total_item_quantity''
           @ '',ecommerce.purchase_revenue_in_usd as ecommerce_purchase_revenue_in_usd''
           @ '',ecommerce.purchase_revenue as ecommerce_purchase_revenue''
           @ '',ecommerce.refund_value_in_usd as ecommerce_refund_value_in_usd''
           @ '',ecommerce.refund_value as ecommerce_refund_value''
           @ '',ecommerce.shipping_value_in_usd as ecommerce_shipping_value_in_usd''
           @ '',ecommerce.shipping_value as ecommerce_shipping_value''
           @ '',ecommerce.tax_value_in_usd as ecommerce_tax_value_in_usd''
           @ '',ecommerce.tax_value as ecommerce_tax_value''
           @ '',ecommerce.unique_items as ecommerce_unique_items''
           @ '',ecommerce.transaction_id as ecommerce_transaction_id'';
         q_event_params =
           ''SELECT '' @ ident @ '',event_params.key as event_params_key''
           @ '',CONCAT(IFNULL(event_params.value.string_value, '' @ [CHR 0x27, CHR 0x27]
           @ ''), IFNULL(CAST(event_params.value.int_value AS STRING), '' @ [CHR 0x27, CHR 0x27]
           @ ''), IFNULL(CAST(event_params.value.float_value AS STRING), '' @ [CHR 0x27, CHR 0x27]
           @ ''), IFNULL(CAST(event_params.value.double_value AS STRING), '' @ [CHR 0x27, CHR 0x27] @ ''))''
           @ '' AS event_params_value'' @ source @ '',UNNEST (event_params) AS event_params'';
         q_user_properties =
           ''SELECT '' @ ident @ '',user_properties.key as user_properties_key''
           @ '',CONCAT(IFNULL(user_properties.value.string_value, '' @ [CHR 0x27, CHR 0x27]
           @ ''), IFNULL(CAST(user_properties.value.int_value AS STRING), '' @ [CHR 0x27, CHR 0x27]
           @ ''), IFNULL(CAST(user_properties.value.float_value AS STRING), '' @ [CHR 0x27, CHR 0x27]
           @ ''), IFNULL(CAST(user_properties.value.double_value AS STRING), '' @ [CHR 0x27, CHR 0x27] @ ''))''
           @ '' AS user_properties_value''
           @ '',user_properties.value.set_timestamp_micros''
           @ '' as user_properties_value_set_timestamp_micros''
           @ source @ '',UNNEST (user_properties) AS user_properties'';
         q_items = ''SELECT '' @ ident @ items_columns @ source @ '',UNNEST (items) AS items'';
         q_events = (\<lambda>registry.
           ''SELECT '' @ ident @ events_columns @ concat (map column registry) @ source
           @ '' as events'')
     in get_event_params_query s1 = Inr q_event_params
      \<and> get_event_params_query s2 = Inr q_event_params
      \<and> get_user_properties_query s1 = Inr q_user_properties
      \<and> get_user_properties_query s2 = Inr q_user_properties
      \<and> get_items_query s1 = Inr q_items
      \<and> get_items_query s2 = Inr q_items
      \<and> get_events_query s1 = Inr (q_events (event_params_flat_fields s1))
      \<and> get_events_query s2 = Inr (q_events (event_params_flat_fields s1))
      \<and> (\<forall>key t. map_of (event_params_flat_fields s1) key = None \<longrightarrow>
            get_events_query
              (s1 \<lparr> event_params_flat_fields := AList.update key t (event_params_flat_fields s1) \<rparr>)
            = Inr (''SELECT '' @ ident @ events_columns
                   @ concat (map column (event_params_flat_fields s1)) @ column (key, t)
                   @ source @ '' as events''))\<close>
  unfolding Let_def
  apply (intro conjI allI impI)
  subgoal
    by (simp add: get_event_params_query_def unique_event_id_text field_as_column_def
        replace_char_def event_params_fields_def coalesced_value_def apostrophe_def
        source_table_def)
  subgoal
    by (simp add: get_event_params_query_def unique_event_id_text field_as_column_def
        replace_char_def event_params_fields_def coalesced_value_def apostrophe_def
        source_table_def assms(1-4) [symmetric])
  subgoal
    by (simp add: get_user_properties_query_def unique_event_id_text field_as_column_def
        replace_char_def user_properties_fields_def coalesced_value_def apostrophe_def
        source_table_def)
  subgoal
    by (simp add: get_user_properties_query_def unique_event_id_text field_as_column_def
        replace_char_def user_properties_fields_def coalesced_value_def apostrophe_def
        source_table_def assms(1-4) [symmetric])
  subgoal
    by (simp add: get_items_query_def unique_event_id_text add_fields_eq items_columns_text
        source_table_def)
  subgoal
    by (simp add: get_items_query_def unique_event_id_text add_fields_eq items_columns_text
        source_table_def assms(1-4) [symmetric])
  subgoal
    by (simp add: get_events_query_def unique_event_id_text add_fields_eq events_columns_text
        add_event_params_columns_eq apostrophe_def source_table_def)
  subgoal
    by (simp add: get_events_query_def unique_event_id_text add_fields_eq events_columns_text
        add_event_params_columns_eq apostrophe_def source_table_def assms [symmetric])
  subgoal for key t
    by (simp add: get_events_query_def unique_event_id_text add_fields_eq events_columns_text
        add_event_params_columns_eq apostrophe_def source_table_def update_absent)
  done

theorem query_text_deterministic_witness:
  \<open>\<exists>q.
     get_events_query
       (example_storage \<lparr> event_params_flat_fields :=
          [(''page_title'', ''STRING''), (''ga_session_id'', ''INTEGER'')] \<rparr>) = Inr q
   \<and> get_events_query
       (example_storage \<lparr> date := Datetime 1999 12 31, ga_type := ''INTRADAY'',
          event_params_flat_fields := [(''page_title'', ''STRING''), (''ga_session_id'', ''INTEGER'')],
          partitioned_table_schemas := [] \<rparr>) = Inr q
   \<and> q =
      ''SELECT CONCAT(stream_id'' @ '', "_"'' @ '', user_pseudo_id'' @ '', "_"''
      @ '', event_name'' @ '', "_"'' @ '', event_timestamp) as event_id''
      @ '',event_date as event_date'' @ '',event_timestamp as event_timestamp''
      @ '',event_name as event_name''
      @ '',event_previous_timestamp as event_previous_timestamp''
      @ '',event_value_in_usd as event_value_in_usd''
      @ '',event_bundle_sequence_id as event_bundle_sequence_id''
      @ '',event_server_timestamp_offset as event_server_timestamp_offset''
      @ '',user_id as user_id'' @ '',user_pseudo_id as user_pseudo_id''
      @ '',privacy_info.analytics_storage as privacy_info_analytics_storage''
      @ '',privacy_info.ads_storage as privacy_info_ads_storage''
      @ '',privacy_info.uses_transient_token as privacy_info_uses_transient_token''
      @ '',user_first_touch_timestamp as user_first_touch_timestamp''
      @ '',user_ltv.revenue as user_ltv_revenue'' @ '',user_ltv.currency as user_ltv_currency''
      @ '',device.category as device_category''
      @ '',device.mobile_brand_name as device_mobile_brand_name''
      @ '',device.mobile_model_name as device_mobile_model_name''
      @ '',device.mobile_marketing_name as device_mobile_marketing_name''
      @ '',device.mobile_os_hardware_model as device_mobile_os_hardware_model''
      @ '',device.operating_system as device_operating_system''
      @ '',device.operating_system_version as device_operating_system_version''
      @ '',device.vendor_id as device_vendor_id''
      @ '',device.advertising_id as device_advertising_id''
      @ '',device.language as device_language''
      @ '',device.is_limited_ad_tracking as device_is_limited_ad_tracking''
      @ '',device.time_zone_offset_seconds as device_time_zone_offset_seconds''
      @ '',device.browser as device_browser''
      @ '',device.browser_version as device_browser_version''
      @ '',device.web_info.browser as device_web_info_browser''
      @ '',device.web_info.browser_version as device_web_info_browser_version''
      @ '',device.web_info.hostname as device_web_info_hostname''
      @ '',geo.continent as geo_continent'' @ '',geo.country as geo_country''
      @ '',geo.region as geo_region'' @ '',geo.city as geo_city''
      @ '',geo.sub_continent as geo_sub_continent'' @ '',geo.metro as geo_metro''
      @ '',app_info.id as app_info_id'' @ '',app_info.version as app_info_version''
      @ '',app_info.install_store as app_info_install_store''
      @ '',app_info.firebase_app_id as app_info_firebase_app_id''
      @ '',app_info.install_source as app_info_install_source''
      @ '',traffic_source.name as traffic_source_name''
      @ '',traffic_source.medium as traffic_source_medium''
      @ '',traffic_source.source as traffic_source_source'' @ '',stream_id as stream_id''
      @ '',platform as platform'' @ '',event_dimensions.hostname as event_dimensions_hostname''
      @ '',ecommerce.total_item_quantity as ecommerce_total_item_quantity''
      @ '',ecommerce.purchase_revenue_in_usd as ecommerce_purchase_revenue_in_usd''
      @ '',ecommerce.purchase_revenue as ecommerce_purchase_revenue''
      @ '',ecommerce.refund_value_in_usd as ecommerce_refund_value_in_usd''
      @ '',ecommerce.refund_value as ecommerce_refund_value''
      @ '',ecommerce.shipping_value_in_usd as ecommerce_shipping_value_in_usd''
      @ '',ecommerce.shipping_value as ecommerce_shipping_value''
      @ '',ecommerce.tax_value_in_usd as ecommerce_tax_value_in_usd''
      @ '',ecommerce.tax_value as ecommerce_tax_value''
      @ '',ecommerce.unique_items as ecommerce_unique_items''
      @ '',ecommerce.transaction_id as ecommerce_transaction_id''
      @ '',(SELECT value.string_value FROM UNNEST(events.event_params) WHERE key = ''
      @ [CHR 0x27]
      @ ''page_title''
      @ [CHR 0x27]
      @ '') AS page_title_ep''
      @ '',(SELECT value.int_value FROM UNNEST(events.event_params) WHERE key = ''
      @ [CHR 0x27]
      @ ''ga_session_id''
      @ [CHR 0x27]
      @ '') AS ga_session_id_ep FROM `my-project.analytics_123.events_20240101` as events''\<close>
proof -
  let ?s1 = "example_storage \<lparr> event_params_flat_fields :=
         [(''page_title'', ''STRING''), (''ga_session_id'', ''INTEGER'')] \<rparr>"
  let ?s2 = "example_storage \<lparr> date := Datetime 1999 12 31, ga_type := ''INTRADAY'',
          event_params_flat_fields := [(''page_title'', ''STRING''), (''ga_session_id'', ''INTEGER'')],
          partitioned_table_schemas := [] \<rparr>"
  have low: "lower ''STRING'' = ''string''"
    by code_simp
  note main = query_text_deterministic [of ?s1 ?s2, unfolded Let_def]
  have a: "gcp_project ?s1 = gcp_project ?s2" "dataset ?s1 = dataset ?s2"
    "table_name ?s1 = table_name ?s2" "date_shard ?s1 = date_shard ?s2"
    "event_params_flat_fields ?s1 = event_params_flat_fields ?s2"
    by simp_all
  note both = main [OF a, THEN conjunct2, THEN conjunct2, THEN conjunct2, THEN conjunct2,
      THEN conjunct2, THEN conjunct2]
  show ?thesis
    using both [THEN conjunct1] both [THEN conjunct2, THEN conjunct1]
    by (simp add: example_storage_def low)
qed

lemma sep_front:
  "c \<notin> set xs \<Longrightarrow> c \<notin> set ys \<Longrightarrow> xs @ c # r = ys @ c # r' \<Longrightarrow> xs = ys \<and> r = r'"
proof (induction xs arbitrary: ys)
  case Nil
  then show ?case by (cases ys) auto
next
  case (Cons x xs)
  then show ?case by (cases ys) auto
qed

lemma sep_back:
  assumes "c \<notin> set xs" and "c \<notin> set ys" and "r @ c # xs = r' @ c # ys"
  shows "xs = ys \<and> r = r'"
proof -
  have "rev xs @ c # rev r = rev ys @ c # rev r'"
    using arg_cong [OF assms(3), of rev] by simp
  from sep_front [OF _ _ this] assms(1,2) show ?thesis by simp
qed

lemma event_id_eq:
  "event_id row =
     (case (map_of row ''stream_id'', map_of row ''user_pseudo_id'', map_of row ''event_name'',
            map_of row ''event_timestamp'') of
        (Some s, Some u, Some n, Some t) \<Rightarrow> Some (s @ ''_'' @ u @ ''_'' @ n @ ''_'' @ t)
      | _ \<Rightarrow> None)"
  by (simp add: event_id_def unique_event_id_args_def unique_event_id_fields_def
      split: option.splits)

lemma id4_inj:
  assumes eq: "s @ CHR ''_'' # u @ CHR ''_'' # n @ CHR ''_'' # t
             = s' @ CHR ''_'' # u' @ CHR ''_'' # n' @ CHR ''_'' # t'"
    and free: "(P s \<and> P s' \<and> P u \<and> P u' \<and> P n \<and> P n') \<or> (P s \<and> P s' \<and> P u \<and> P u' \<and> P t \<and> P t')
             \<or> (P s \<and> P s' \<and> P n \<and> P n' \<and> P t \<and> P t') \<or> (P u \<and> P u' \<and> P n \<and> P n' \<and> P t \<and> P t')"
    and P: "\<And>x. P x \<longleftrightarrow> CHR ''_'' \<notin> set x"
  shows "s = s' \<and> u = u' \<and> n = n' \<and> t = t'"
proof -
  have back3: "t = t' \<and> s @ CHR ''_'' # u @ CHR ''_'' # n = s' @ CHR ''_'' # u' @ CHR ''_'' # n'"
    if "P t" "P t'"
    using sep_back [of "CHR ''_''" t t' "s @ CHR ''_'' # u @ CHR ''_'' # n"
        "s' @ CHR ''_'' # u' @ CHR ''_'' # n'"] that eq P by simp
  have back2: "n = n' \<and> s @ CHR ''_'' # u = s' @ CHR ''_'' # u'"
    if "P n" "P n'" "s @ CHR ''_'' # u @ CHR ''_'' # n = s' @ CHR ''_'' # u' @ CHR ''_'' # n'"
    using sep_back [of "CHR ''_''" n n' "s @ CHR ''_'' # u" "s' @ CHR ''_'' # u'"] that P by simp
  have back1: "u = u' \<and> s = s'"
    if "P u" "P u'" "s @ CHR ''_'' # u = s' @ CHR ''_'' # u'"
    using sep_back [of "CHR ''_''" u u' s s'] that P by simp
  have front1: "s = s' \<and> u @ CHR ''_'' # n @ CHR ''_'' # t = u' @ CHR ''_'' # n' @ CHR ''_'' # t'"
    if "P s" "P s'"
    using sep_front [OF _ _ eq] that P by simp
  have front2: "u = u' \<and> n @ CHR ''_'' # t = n' @ CHR ''_'' # t'"
    if "P u" "P u'" "u @ CHR ''_'' # n @ CHR ''_'' # t = u' @ CHR ''_'' # n' @ CHR ''_'' # t'"
    using sep_front [OF _ _ that(3)] that P by simp
  have front3: "n = n' \<and> t = t'"
    if "P n" "P n'" "n @ CHR ''_'' # t = n' @ CHR ''_'' # t'"
    using sep_front [OF _ _ that(3)] that P by simp
  have back_n: "t = t' \<and> n = n'"
    if "P t" "P t'" "n @ CHR ''_'' # t = n' @ CHR ''_'' # t'"
    using sep_back [of "CHR ''_''" t t' n n'] that P by simp
  have back_un: "t = t' \<and> u @ CHR ''_'' # n = u' @ CHR ''_'' # n'"
    if "P t" "P t'" "u @ CHR ''_'' # n @ CHR ''_'' # t = u' @ CHR ''_'' # n' @ CHR ''_'' # t'"
    using sep_back [of "CHR ''_''" t t' "u @ CHR ''_'' # n" "u' @ CHR ''_'' # n'"] that P by simp
  have back_u: "n = n' \<and> u = u'"
    if "P n" "P n'" "u @ CHR ''_'' # n = u' @ CHR ''_'' # n'"
    using sep_back [of "CHR ''_''" n n' u u'] that P by simp
  from free show ?thesis
  proof (elim disjE conjE)
    assume "P s" "P s'" "P u" "P u'" "P n" "P n'"
    then show ?thesis using front1 front2 front3 by blast
  next
    assume "P s" "P s'" "P u" "P u'" "P t" "P t'"
    then show ?thesis using front1 front2 back_n by blast
  next
    assume "P s" "P s'" "P n" "P n'" "P t" "P t'"
    then show ?thesis using front1 back_un back_u by blast
  next
    assume "P u" "P u'" "P n" "P n'" "P t" "P t'"
    then show ?thesis using back3 back2 back1 by blast
  qed
qed

text \<open>
  C3, amended.  The identifier of a row is determined by the values of the four identity
  fields, and a row has an identifier exactly when none of the four fields is \<open>NULL\<close>.
  For two rows that both have an identifier, and for one of the four fields \<open>k\<close>: when the
  values of the other three fields contain no separator in either row, equal identifiers
  give equal values of all four fields.  Without these conditions two different tuples can
  have one identifier, or both none.
\<close>

theorem event_id_pure_and_injective_up_to_separator:
  "((\<forall>f \<in> set unique_event_id_fields. map_of r1 f = map_of r2 f) \<longrightarrow> event_id r1 = event_id r2)
   \<and> (event_id r1 = None \<longleftrightarrow> (\<exists>f \<in> set unique_event_id_fields. map_of r1 f = None))
   \<and> (event_id r1 = Some i \<and> event_id r2 = Some i \<and> k \<in> set unique_event_id_fields
        \<and> (\<forall>f \<in> set unique_event_id_fields. f \<noteq> k \<longrightarrow>
              separator_free (the (map_of r1 f)) \<and> separator_free (the (map_of r2 f)))
       \<longrightarrow> (\<forall>f \<in> set unique_event_id_fields. map_of r1 f = map_of r2 f))"
proof (intro conjI impI)
  assume "\<forall>f \<in> set unique_event_id_fields. map_of r1 f = map_of r2 f"
  then show "event_id r1 = event_id r2"
    by (simp add: event_id_eq unique_event_id_fields_def)
next
  show "event_id r1 = None \<longleftrightarrow> (\<exists>f \<in> set unique_event_id_fields. map_of r1 f = None)"
    by (auto simp: event_id_eq unique_event_id_fields_def split: option.splits)
next
  assume h: "event_id r1 = Some i \<and> event_id r2 = Some i \<and> k \<in> set unique_event_id_fields
        \<and> (\<forall>f \<in> set unique_event_id_fields. f \<noteq> k \<longrightarrow>
              separator_free (the (map_of r1 f)) \<and> separator_free (the (map_of r2 f)))"
  from h obtain s u n t where r1:
    "map_of r1 ''stream_id'' = Some s" "map_of r1 ''user_pseudo_id'' = Some u"
    "map_of r1 ''event_name'' = Some n" "map_of r1 ''event_timestamp'' = Some t"
    "i = s @ CHR ''_'' # u @ CHR ''_'' # n @ CHR ''_'' # t"
    by (auto simp: event_id_eq split: option.splits)
  from h obtain s' u' n' t' where r2:
    "map_of r2 ''stream_id'' = Some s'" "map_of r2 ''user_pseudo_id'' = Some u'"
    "map_of r2 ''event_name'' = Some n'" "map_of r2 ''event_timestamp'' = Some t'"
    "i = s' @ CHR ''_'' # u' @ CHR ''_'' # n' @ CHR ''_'' # t'"
    by (auto simp: event_id_eq split: option.splits)
  have eq: "s @ CHR ''_'' # u @ CHR ''_'' # n @ CHR ''_'' # t
          = s' @ CHR ''_'' # u' @ CHR ''_'' # n' @ CHR ''_'' # t'"
    using r1(5) r2(5) by simp
  have k: "k = ''stream_id'' \<or> k = ''user_pseudo_id'' \<or> k = ''event_name'' \<or> k = ''event_timestamp''"
    using h by (simp add: unique_event_id_fields_def)
  have free: "\<And>f. f \<in> set unique_event_id_fields \<Longrightarrow> f \<noteq> k \<Longrightarrow>
      separator_free (the (map_of r1 f)) \<and> separator_free (the (map_of r2 f))"
    using h by blast
  have fs: "k \<noteq> ''stream_id'' \<Longrightarrow> separator_free s \<and> separator_free s'"
    using free [of "''stream_id''"] r1(1) r2(1) by (simp add: unique_event_id_fields_def)
  have fu: "k \<noteq> ''user_pseudo_id'' \<Longrightarrow> separator_free u \<and> separator_free u'"
    using free [of "''user_pseudo_id''"] r1(2) r2(2) by (simp add: unique_event_id_fields_def)
  have fn: "k \<noteq> ''event_name'' \<Longrightarrow> separator_free n \<and> separator_free n'"
    using free [of "''event_name''"] r1(3) r2(3) by (simp add: unique_event_id_fields_def)
  have ft: "k \<noteq> ''event_timestamp'' \<Longrightarrow> separator_free t \<and> separator_free t'"
    using free [of "''event_timestamp''"] r1(4) r2(4) by (simp add: unique_event_id_fields_def)
  have "s = s' \<and> u = u' \<and> n = n' \<and> t = t'"
  proof (rule id4_inj [OF eq, where P = separator_free])
    show "separator_free x \<longleftrightarrow> CHR ''_'' \<notin> set x" for x
      by (simp add: separator_free_def)
    from k show "(separator_free s \<and> separator_free s' \<and> separator_free u \<and> separator_free u'
          \<and> separator_free n \<and> separator_free n')
       \<or> (separator_free s \<and> separator_free s' \<and> separator_free u \<and> separator_free u'
          \<and> separator_free t \<and> separator_free t')
       \<or> (separator_free s \<and> separator_free s' \<and> separator_free n \<and> separator_free n'
          \<and> separator_free t \<and> separator_free t')
       \<or> (separator_free u \<and> separator_free u' \<and> separator_free n \<and> separator_free n'
          \<and> separator_free t \<and> separator_free t')"
      using fs fu fn ft by (elim disjE) simp_all
  qed
  then show "\<forall>f \<in> set unique_event_id_fields. map_of r1 f = map_of r2 f"
    using r1 r2 by (simp add: unique_event_id_fields_def)
qed

theorem event_id_pure_and_injective_up_to_separator_witness:
  "event_id [(''stream_id'', ''17''), (''user_pseudo_id'', ''u.42''), (''event_name'', ''page_view''),
             (''event_timestamp'', ''1704067200000000'')] = Some ''17_u.42_page_view_1704067200000000''
   \<and> event_id [(''event_name'', ''page_view''), (''platform'', ''WEB''), (''stream_id'', ''17''),
               (''event_timestamp'', ''1704067200000000''), (''user_pseudo_id'', ''u.42'')]
       = Some ''17_u.42_page_view_1704067200000000''
   \<and> map_of [(''stream_id'', ''17''), (''user_pseudo_id'', ''u.42''), (''event_name'', ''page_view''),
              (''event_timestamp'', ''1704067200000000'')] ''event_name''
       = map_of [(''event_name'', ''page_view''), (''platform'', ''WEB''), (''stream_id'', ''17''),
                 (''event_timestamp'', ''1704067200000000''), (''user_pseudo_id'', ''u.42'')]
           ''event_name''"
proof -
  let ?r1 = "[(''stream_id'', ''17''), (''user_pseudo_id'', ''u.42''), (''event_name'', ''page_view''),
              (''event_timestamp'', ''1704067200000000'')]"
  let ?r2 = "[(''event_name'', ''page_view''), (''platform'', ''WEB''), (''stream_id'', ''17''),
              (''event_timestamp'', ''1704067200000000''), (''user_pseudo_id'', ''u.42'')]"
  have a: "event_id ?r1 = Some ''17_u.42_page_view_1704067200000000''"
    by (simp add: event_id_eq)
  have b: "event_id ?r2 = Some ''17_u.42_page_view_1704067200000000''"
    by (simp add: event_id_eq)
  have c: "''event_name'' \<in> set unique_event_id_fields"
    by (simp add: unique_event_id_fields_def)
  have d: "\<forall>f \<in> set unique_event_id_fields. f \<noteq> ''event_name'' \<longrightarrow>
              separator_free (the (map_of ?r1 f)) \<and> separator_free (the (map_of ?r2 f))"
    by (simp add: unique_event_id_fields_def separator_free_def)
  from event_id_pure_and_injective_up_to_separator
         [of ?r1 ?r2 "''17_u.42_page_view_1704067200000000''" "''event_name''"] a b c d
  have "\<forall>f \<in> set unique_event_id_fields. map_of ?r1 f = map_of ?r2 f"
    by blast
  with c have "map_of ?r1 ''event_name'' = map_of ?r2 ''event_name''"
    by blast
  with a b show ?thesis
    by blast
qed

text \<open>
  C3 as stated fails: the tuples \<open>(17, u_page, view, 5)\<close> and \<open>(17, u, page_view, 5)\<close>
  differ in two fields and have the same identifier.
\<close>

theorem event_id_collision_counterexample:
  "event_id [(''stream_id'', ''17''), (''user_pseudo_id'', ''u_page''), (''event_name'', ''view''),
             (''event_timestamp'', ''5'')] = Some ''17_u_page_view_5''
   \<and> event_id [(''stream_id'', ''17''), (''user_pseudo_id'', ''u''), (''event_name'', ''page_view''),
               (''event_timestamp'', ''5'')] = Some ''17_u_page_view_5''
   \<and> ''u_page'' \<noteq> ''u'' \<and> ''view'' \<noteq> ''page_view''"
  by (simp add: event_id_eq)

text \<open>Two different tuples with a \<open>NULL\<close> pseudo user identifier: neither has an identifier.\<close>

lemma event_id_null_collision:
  "event_id [(''stream_id'', ''17''), (''event_name'', ''click''), (''event_timestamp'', ''5'')] = None
   \<and> event_id [(''stream_id'', ''18''), (''event_name'', ''view''), (''event_timestamp'', ''6'')] = None"
  by (simp add: event_id_eq)

section \<open>Properties of the rolling write\<close>

lemma coerce_column_eq:
  "map_of df c = Some s \<Longrightarrow>
   coerce_column pd c sch df =
     (case coerce_all pd (map field_type (filter (\<lambda>f. name f = c) sch)) s of
        Inl e \<Rightarrow> Inl e
      | Inr s' \<Rightarrow> Inr (AList.update c s' df))"
proof (induction sch arbitrary: df s)
  case Nil
  then show ?case by (simp add: update_triv)
next
  case (Cons f sch)
  show ?case
  proof (cases "name f = c")
    case False
    then show ?thesis using Cons.IH [OF Cons.prems] by simp
  next
    case True
    show ?thesis
    proof (cases "conversion_for (field_type f)")
      case None
      then show ?thesis using True Cons.IH [OF Cons.prems] by simp
    next
      case (Some conv)
      show ?thesis
      proof (cases "convert pd conv s")
        case (Inl e)
        then show ?thesis using True Some Cons.prems by simp
      next
        case (Inr s')
        have "map_of (AList.update c s' df) c = Some s'"
          by (simp add: update_conv')
        from Cons.IH [OF this] show ?thesis
          using True Some Inr Cons.prems by (simp split: sum.splits)
      qed
    qed
  qed
qed

lemma update_present_keys:
  "map_of df c = Some s \<Longrightarrow> map fst (AList.update c s' df) = map fst df"
  by (auto simp: update_keys dest!: map_of_SomeD intro: rev_image_eqI)

lemma coerce_columns_ok:
  assumes "distinct cs" and "set cs \<subseteq> fst ` set df"
    and "\<And>c s. c \<in> set cs \<Longrightarrow> map_of df c = Some s \<Longrightarrow>
           \<exists>s'. coerce_all pd (map field_type (filter (\<lambda>f. name f = c) sch)) s = Inr s'"
  shows "\<exists>df'. coerce_columns pd cs sch df = Inr df' \<and> map fst df' = map fst df
     \<and> (\<forall>c s. map_of df c = Some s \<longrightarrow>
          (if c \<in> set cs
           then coerce_all pd (map field_type (filter (\<lambda>f. name f = c) sch)) s
                  = Inr (the (map_of df' c)) \<and> map_of df' c \<noteq> None
           else map_of df' c = Some s))"
  using assms
proof (induction cs arbitrary: df)
  case Nil
  then show ?case by simp
next
  case (Cons c cs)
  let ?chain = "\<lambda>c s. coerce_all pd (map field_type (filter (\<lambda>f. name f = c) sch)) s"
  from Cons.prems(2) obtain s where s: "map_of df c = Some s"
    by (metis list.set_intros(1) map_of_eq_None_iff not_None_eq subsetD)
  from Cons.prems(3) [OF _ s] obtain s' where s': "?chain c s = Inr s'"
    by auto
  define df1 where "df1 = AList.update c s' df"
  have step: "coerce_column pd c sch df = Inr df1"
    using coerce_column_eq [OF s, of pd sch] s' by (simp add: df1_def)
  have keys1: "map fst df1 = map fst df"
    unfolding df1_def using s by (rule update_present_keys)
  have m1: "map_of df1 c' = (if c' = c then Some s' else map_of df c')" for c'
    by (simp add: df1_def update_conv')
  have notin: "c \<notin> set cs" and dist: "distinct cs"
    using Cons.prems(1) by simp_all
  have sub: "set cs \<subseteq> fst ` set df1"
    using Cons.prems(2) keys1 by (metis list.set_map set_subset_Cons subset_trans)
  have ok: "\<exists>s'. ?chain c' t = Inr s'" if "c' \<in> set cs" "map_of df1 c' = Some t" for c' t
  proof -
    have "c' \<noteq> c" using that(1) notin by auto
    then have "map_of df c' = Some t" using that(2) m1 by simp
    then show ?thesis using Cons.prems(3) [of c' t] that(1) by simp
  qed
  from Cons.IH [OF dist sub ok] obtain df' where
    r: "coerce_columns pd cs sch df1 = Inr df'" and k: "map fst df' = map fst df1"
    and m: "\<And>c' t. map_of df1 c' = Some t \<Longrightarrow>
          (if c' \<in> set cs then ?chain c' t = Inr (the (map_of df' c')) \<and> map_of df' c' \<noteq> None
           else map_of df' c' = Some t)"
    by blast
  have "coerce_columns pd (c # cs) sch df = Inr df'"
    using step r by simp
  moreover have "map fst df' = map fst df"
    using k keys1 by simp
  moreover have "if c' \<in> set (c # cs)
           then ?chain c' t = Inr (the (map_of df' c')) \<and> map_of df' c' \<noteq> None
           else map_of df' c' = Some t" if t: "map_of df c' = Some t" for c' t
  proof (cases "c' = c")
    case True
    have "map_of df' c = Some s'"
      using m [of c s'] m1 [of c] notin by simp
    then show ?thesis using True t s s' by simp
  next
    case False
    then have "map_of df1 c' = Some t" using t m1 by simp
    from m [OF this] show ?thesis using False by simp
  qed
  ultimately show ?case by blast
qed

lemma coerce_columns_fail:
  assumes "distinct cs" and "set cs \<subseteq> fst ` set df"
    and "\<exists>c \<in> set cs. \<exists>s e. map_of df c = Some s
           \<and> coerce_all pd (map field_type (filter (\<lambda>f. name f = c) sch)) s = Inl e"
  shows "\<exists>c \<in> set cs. \<exists>s e. map_of df c = Some s
           \<and> coerce_all pd (map field_type (filter (\<lambda>f. name f = c) sch)) s = Inl e
           \<and> coerce_columns pd cs sch df = Inl e"
  using assms
proof (induction cs arbitrary: df)
  case Nil
  then show ?case by simp
next
  case (Cons c cs)
  let ?chain = "\<lambda>c s. coerce_all pd (map field_type (filter (\<lambda>f. name f = c) sch)) s"
  from Cons.prems(2) obtain s where s: "map_of df c = Some s"
    by (metis list.set_intros(1) map_of_eq_None_iff not_None_eq subsetD)
  show ?case
  proof (cases "?chain c s")
    case (Inl e)
    then have "coerce_columns pd (c # cs) sch df = Inl e"
      using coerce_column_eq [OF s, of pd sch] by simp
    then show ?thesis using s Inl by auto
  next
    case (Inr s')
    define df1 where "df1 = AList.update c s' df"
    have step: "coerce_column pd c sch df = Inr df1"
      using coerce_column_eq [OF s, of pd sch] Inr by (simp add: df1_def)
    have keys1: "map fst df1 = map fst df"
      unfolding df1_def using s by (rule update_present_keys)
    have m1: "map_of df1 c' = (if c' = c then Some s' else map_of df c')" for c'
      by (simp add: df1_def update_conv')
    have notin: "c \<notin> set cs" and dist: "distinct cs"
      using Cons.prems(1) by simp_all
    have sub: "set cs \<subseteq> fst ` set df1"
      using Cons.prems(2) keys1 by (metis list.set_map set_subset_Cons subset_trans)
    from Cons.prems(3) obtain c' t e where
      f: "c' \<in> set (c # cs)" "map_of df c' = Some t" "?chain c' t = Inl e"
      by blast
    have "c' \<noteq> c" using f s Inr by auto
    then have "\<exists>c \<in> set cs. \<exists>s e. map_of df1 c = Some s \<and> ?chain c s = Inl e"
      using f m1 by auto
    from Cons.IH [OF dist sub this] obtain c2 t2 e2 where
      g: "c2 \<in> set cs" "map_of df1 c2 = Some t2" "?chain c2 t2 = Inl e2"
         "coerce_columns pd cs sch df1 = Inl e2"
      by blast
    have "c2 \<noteq> c" using g(1) notin by auto
    then have "map_of df c2 = Some t2" using g(2) m1 by simp
    moreover have "coerce_columns pd (c # cs) sch df = Inl e2"
      using step g(4) by simp
    ultimately show ?thesis using g(1,3) by auto
  qed
qed

lemma of_char_digit_char: "of_char (digit_char n) = (48 + n mod 10 :: nat)"
proof -
  have "n mod 10 < 10"
    by simp
  then have "48 + n mod 10 < 256"
    by linarith
  then show ?thesis
    by (simp add: digit_char_def)
qed

lemma isdigit_digit_char: "isdigit (digit_char n)"
  by (simp add: isdigit_def of_char_digit_char)

lemma digit_val_digit_char: "digit_val (digit_char n) = n mod 10"
  by (simp add: digit_val_def of_char_digit_char)

lemma decimal_digits:
  assumes "y \<le> 9999"
  shows "1000 * (y div 1000 mod 10) + 100 * (y div 100 mod 10) + 10 * (y div 10 mod 10) + y mod 10
         = (y :: nat)"
proof -
  have a: "y mod 100 = 10 * (y div 10 mod 10) + y mod 10"
    using mod_mult2_eq [of y 10 10] by simp
  have b: "y mod 1000 = 100 * (y div 100 mod 10) + y mod 100"
    using mod_mult2_eq [of y 100 10] by simp
  have c: "y mod 10000 = 1000 * (y div 1000 mod 10) + y mod 1000"
    using mod_mult2_eq [of y 1000 10] by simp
  have "y mod 10000 = y"
    using assms by simp
  with a b c show ?thesis
    by linarith
qed

lemma match_Y_pad4:
  assumes "y \<le> 9999"
  shows "match_Y (pad4 y @ r) = Some (y, r)"
proof -
  have "y div 1000 < 10"
    using assms by simp
  then have "y div 1000 mod 10 = y div 1000"
    by simp
  with decimal_digits [OF assms] show ?thesis
    by (simp add: match_Y_def pad4_def isdigit_digit_char digit_val_digit_char)
qed

lemma digit_char_eq_iff: "digit_char n = c \<longleftrightarrow> (of_char c :: nat) = 48 + n mod 10"
  using of_char_eq_iff [of "digit_char n" c, where ?'a = nat]
  by (auto simp: of_char_digit_char)

lemma match_m_pad2:
  assumes "1 \<le> m" and "m \<le> 12"
  shows "\<exists>rest. match_m (pad2 m @ r) = (m, r) # rest"
proof -
  have "m = 1 \<or> m = 2 \<or> m = 3 \<or> m = 4 \<or> m = 5 \<or> m = 6 \<or> m = 7 \<or> m = 8 \<or> m = 9
        \<or> m = 10 \<or> m = 11 \<or> m = 12"
    using assms by arith
  then show ?thesis
    by (elim disjE)
      (simp_all add: match_m_def pad2_def digit_char_eq_iff of_char_digit_char in_range_def
         digit_val_def)
qed

lemma match_d_pad2:
  assumes "1 \<le> d" and "d \<le> 31"
  shows "\<exists>rest. match_d (pad2 d @ r) = (d, r) # rest"
proof -
  have "d = 1 \<or> d = 2 \<or> d = 3 \<or> d = 4 \<or> d = 5 \<or> d = 6 \<or> d = 7 \<or> d = 8 \<or> d = 9
        \<or> d = 10 \<or> d = 11 \<or> d = 12 \<or> d = 13 \<or> d = 14 \<or> d = 15 \<or> d = 16 \<or> d = 17
        \<or> d = 18 \<or> d = 19 \<or> d = 20 \<or> d = 21 \<or> d = 22 \<or> d = 23 \<or> d = 24 \<or> d = 25
        \<or> d = 26 \<or> d = 27 \<or> d = 28 \<or> d = 29 \<or> d = 30 \<or> d = 31"
    using assms by arith
  then show ?thesis
    by (elim disjE)
      (simp_all add: match_d_def pad2_def digit_char_eq_iff of_char_digit_char in_range_def
         digit_val_def isdigit_def)
qed

lemma days_in_month_le: "days_in_month y m \<le> 31"
  by (simp add: days_in_month_def)

lemma strptime_Ymd_pad:
  assumes "1 \<le> y" and "y \<le> 9999" and "1 \<le> m" and "m \<le> 12"
    and "1 \<le> d" and "d \<le> days_in_month y m"
  shows "strptime_Ymd (pad4 y @ pad2 m @ pad2 d) = Inr (Datetime y m d)"
proof -
  have d31: "d \<le> 31"
    using assms(6) days_in_month_le [of y m] by linarith
  obtain rm where rm: "match_m (pad2 m @ pad2 d) = (m, pad2 d) # rm"
    using match_m_pad2 [OF assms(3,4)] by blast
  obtain rd where rd: "match_d (pad2 d) = (d, []) # rd"
    using match_d_pad2 [OF assms(5) d31, of "[]"] by auto
  show ?thesis
    using assms(1,6) by (simp add: strptime_Ymd_def match_Y_pad4 [OF assms(2)] rm rd)
qed

lemma transform_dataframe_ok:
  assumes sch: "map_of (partitioned_table_schemas self) table_type = Some bq_schema"
    and dist: "distinct (map fst (dataframe :: 'a dataframe))"
    and ok: "\<And>c s. map_of (AList.update partitioning_column (Broadcast (date self)) dataframe) c
                    = Some s \<Longrightarrow>
              \<exists>s'. coerce_all pd (map field_type (filter (\<lambda>f. name f = c) bq_schema)) s = Inr s'"
  shows "\<exists>dataframe' tag.
           transform_dataframe pd self dataframe table_type = Inr dataframe'
         \<and> map fst dataframe' =
             partitioning_column # filter (\<lambda>c. c \<noteq> partitioning_column) (map fst dataframe)
         \<and> hd dataframe' = (partitioning_column, tag)
         \<and> coerce_all pd (map field_type (filter (\<lambda>f. name f = partitioning_column) bq_schema))
               (Broadcast (date self)) = Inr tag
         \<and> (\<forall>c s. map_of dataframe c = Some s \<and> c \<noteq> partitioning_column \<longrightarrow>
               (\<exists>s'. coerce_all pd (map field_type (filter (\<lambda>f. name f = c) bq_schema)) s = Inr s'
                     \<and> map_of dataframe' c = Some s'))"
proof -
  let ?chain = "\<lambda>c s. coerce_all pd (map field_type (filter (\<lambda>f. name f = c) bq_schema)) s"
  define df1 where "df1 = AList.update partitioning_column (Broadcast (date self)) dataframe"
  have d1: "distinct (map fst df1)"
    unfolding df1_def using dist by (rule distinct_update)
  have m1: "map_of df1 c = (if c = partitioning_column then Some (Broadcast (date self))
                            else map_of dataframe c)" for c
    unfolding df1_def by (simp add: update_conv')
  have sub: "set (map fst df1) \<subseteq> fst ` set df1"
    by simp
  have ok1: "\<exists>s'. ?chain c s = Inr s'" if "c \<in> set (map fst df1)" "map_of df1 c = Some s" for c s
    using ok [of c s] that(2) by (simp add: df1_def)
  from coerce_columns_ok [OF d1 sub ok1] obtain df2 where
    r: "coerce_columns pd (map fst df1) bq_schema df1 = Inr df2"
    and k2: "map fst df2 = map fst df1"
    and m2: "\<And>c s. map_of df1 c = Some s \<Longrightarrow>
              (if c \<in> set (map fst df1)
               then ?chain c s = Inr (the (map_of df2 c)) \<and> map_of df2 c \<noteq> None
               else map_of df2 c = Some s)"
    by blast
  have in1: "c \<in> set (map fst df1)" if "map_of df1 c = Some s" for c s
    using that by (metis map_of_eq_None_iff option.distinct(1) set_map)
  have conv: "?chain c s = Inr (the (map_of df2 c)) \<and> map_of df2 c \<noteq> None"
    if "map_of df1 c = Some s" for c s
    using m2 [OF that] in1 [OF that] by simp
  from conv [of partitioning_column "Broadcast (date self)"] obtain tag where
    tag: "map_of df2 partitioning_column = Some tag"
      "?chain partitioning_column (Broadcast (date self)) = Inr tag"
    by (auto simp: m1)
  have keys: "removeAll partitioning_column (map fst df1)
            = filter (\<lambda>c. c \<noteq> partitioning_column) (map fst dataframe)"
    unfolding df1_def by (auto simp: update_keys removeAll_filter_not_eq intro!: filter_cong)
  let ?res = "(partitioning_column, tag) # AList.delete partitioning_column df2"
  have a: "transform_dataframe pd self dataframe table_type = Inr ?res"
    by (simp add: transform_dataframe_def sch Let_def df1_def [symmetric] r tag(1))
  have b: "map fst ?res
      = partitioning_column # filter (\<lambda>c. c \<noteq> partitioning_column) (map fst dataframe)"
    by (simp add: delete_keys k2 keys)
  have c: "hd ?res = (partitioning_column, tag)"
    by simp
  have d: "\<exists>s'. ?chain c s = Inr s' \<and> map_of ?res c = Some s'"
    if "map_of dataframe c = Some s \<and> c \<noteq> partitioning_column" for c s
  proof -
    have "map_of df1 c = Some s" using that by (simp add: m1)
    from conv [OF this] obtain s' where "map_of df2 c = Some s'" "?chain c s = Inr s'"
      by auto
    then show ?thesis using that by simp
  qed
  have e: "\<forall>c s. map_of dataframe c = Some s \<and> c \<noteq> partitioning_column \<longrightarrow>
               (\<exists>s'. ?chain c s = Inr s' \<and> map_of ?res c = Some s')"
    using d by blast
  show ?thesis
    by (rule exI [of _ ?res], rule exI [of _ tag]) (intro conjI a b c tag(2) e)
qed

lemma transform_dataframe_raises:
  assumes sch: "map_of (partitioned_table_schemas self) table_type = Some bq_schema"
    and dist: "distinct (map fst (dataframe :: 'a dataframe))"
    and bad: "\<exists>c s e. map_of (AList.update partitioning_column (Broadcast (date self)) dataframe) c
                       = Some s
                \<and> coerce_all pd (map field_type (filter (\<lambda>f. name f = c) bq_schema)) s = Inl e"
  shows "\<exists>c s e. map_of (AList.update partitioning_column (Broadcast (date self)) dataframe) c
                   = Some s
            \<and> coerce_all pd (map field_type (filter (\<lambda>f. name f = c) bq_schema)) s = Inl e
            \<and> transform_dataframe pd self dataframe table_type = Inl e"
proof -
  let ?chain = "\<lambda>c s. coerce_all pd (map field_type (filter (\<lambda>f. name f = c) bq_schema)) s"
  define df1 where "df1 = AList.update partitioning_column (Broadcast (date self)) dataframe"
  have d1: "distinct (map fst df1)"
    unfolding df1_def using dist by (rule distinct_update)
  have sub: "set (map fst df1) \<subseteq> fst ` set df1"
    by simp
  have in1: "c \<in> set (map fst df1)" if "map_of df1 c = Some s" for c s
    using that by (metis map_of_eq_None_iff option.distinct(1) set_map)
  from bad have "\<exists>c \<in> set (map fst df1). \<exists>s e. map_of df1 c = Some s \<and> ?chain c s = Inl e"
    unfolding df1_def [symmetric] using in1 by blast
  from coerce_columns_fail [OF d1 sub this] obtain c s e where
    f: "map_of df1 c = Some s" "?chain c s = Inl e"
       "coerce_columns pd (map fst df1) bq_schema df1 = Inl e"
    by blast
  have "transform_dataframe pd self dataframe table_type = Inl e"
    by (simp add: transform_dataframe_def sch Let_def df1_def [symmetric] f(3))
  with f(1,2) show ?thesis
    unfolding df1_def by blast
qed

lemma init_of_shard:
  assumes "1 \<le> y" and "y \<le> 9999" and "1 \<le> m" and "m \<le> 12"
    and "1 \<le> d" and "d \<le> days_in_month y m"
  shows "\<exists>self0. GaExportedNestedDataStorage_init p ds t (pad4 y @ pad2 m @ pad2 d) ty = Inr self0
           \<and> date self0 = Datetime y m d \<and> date_shard self0 = pad4 y @ pad2 m @ pad2 d"
  by (simp add: GaExportedNestedDataStorage_init_def strptime_Ymd_pad [OF assms])

lemma coerce_all_single:
  "coerce_all pd [''STRING''] s
     = (case pd Astype_str s of Some e \<Rightarrow> Inl e | None \<Rightarrow> Inr (AsType_str s))"
  "coerce_all pd [''FLOAT''] s
     = (case pd Astype_float s of Some e \<Rightarrow> Inl e | None \<Rightarrow> Inr (AsType_float s))"
  "coerce_all pd [''INTEGER''] s
     = (case pd Series_Int64 s of Some e \<Rightarrow> Inl e | None \<Rightarrow> Inr (As_Int64 s))"
  "coerce_all pd [''DATE''] s
     = (case pd Dt_accessor_date s of Some e \<Rightarrow> Inl e | None \<Rightarrow> Inr (Dt_date s))"
  by (simp_all add: conversion_for_def convert_def converted_def split: option.splits)

text \<open>
  C7, amended.  Take a table type that has a schema and a dataframe with distinct labels,
  and let \<open>types c\<close> be the types of the schema fields named \<open>c\<close>, in the order of
  the schema.

  If none of the conversions that the loops apply raises, \<open>transform_dataframe\<close> returns a
  dataframe whose first column is the partitioning column \<open>event_date\<close>, followed by the
  other columns in their order.  The partitioning column holds the date of the object, and
  every column is converted once for each schema field of its name, by the type of the
  field: \<open>STRING\<close> by \<open>astype(str)\<close>, \<open>FLOAT\<close> by \<open>astype(float)\<close>, \<open>INTEGER\<close> by the
  nullable \<open>Int64\<close> series and \<open>DATE\<close> by \<open>.dt.date\<close>; a column that the schema does not
  name is unchanged.

  If a conversion raises, the method returns no dataframe: it is left by the exception of
  a conversion.

  The date of an object made by the constructor from the shard \<open>YYYYMMDD\<close> of a calendar
  date is that date.
\<close>

theorem transform_dataframe_coerces_and_tags:
  assumes "map_of (partitioned_table_schemas self) table_type = Some bq_schema"
    and "distinct (map fst (dataframe :: 'a dataframe))"
  shows
    "let types = (\<lambda>c. map field_type (filter (\<lambda>f. name f = c) bq_schema));
         tagged = AList.update partitioning_column (Broadcast (date self)) dataframe
     in ((\<forall>c s. map_of tagged c = Some s \<longrightarrow> (\<exists>s'. coerce_all pd (types c) s = Inr s'))
          \<longrightarrow> (\<exists>dataframe' tag.
                 transform_dataframe pd self dataframe table_type = Inr dataframe'
               \<and> map fst dataframe' =
                   partitioning_column # filter (\<lambda>c. c \<noteq> partitioning_column) (map fst dataframe)
               \<and> hd dataframe' = (partitioning_column, tag)
               \<and> coerce_all pd (types partitioning_column) (Broadcast (date self)) = Inr tag
               \<and> (\<forall>c s. map_of dataframe c = Some s \<and> c \<noteq> partitioning_column \<longrightarrow>
                     (\<exists>s'. coerce_all pd (types c) s = Inr s' \<and> map_of dataframe' c = Some s'))))
      \<and> ((\<exists>c s e. map_of tagged c = Some s \<and> coerce_all pd (types c) s = Inl e)
          \<longrightarrow> (\<exists>c s e. map_of tagged c = Some s \<and> coerce_all pd (types c) s = Inl e
                 \<and> transform_dataframe pd self dataframe table_type = Inl e))
      \<and> (\<forall>s. coerce_all pd [''STRING''] s
                 = (case pd Astype_str s of Some e \<Rightarrow> Inl e | None \<Rightarrow> Inr (AsType_str s))
             \<and> coerce_all pd [''FLOAT''] s
                 = (case pd Astype_float s of Some e \<Rightarrow> Inl e | None \<Rightarrow> Inr (AsType_float s))
             \<and> coerce_all pd [''INTEGER''] s
                 = (case pd Series_Int64 s of Some e \<Rightarrow> Inl e | None \<Rightarrow> Inr (As_Int64 s))
             \<and> coerce_all pd [''DATE''] s
                 = (case pd Dt_accessor_date s of Some e \<Rightarrow> Inl e | None \<Rightarrow> Inr (Dt_date s))
             \<and> coerce_all pd [] s = Inr s)
      \<and> (\<forall>p ds t ty y m d.
            1 \<le> y \<and> y \<le> 9999 \<and> 1 \<le> m \<and> m \<le> 12 \<and> 1 \<le> d \<and> d \<le> days_in_month y m \<longrightarrow>
            (\<exists>self0. GaExportedNestedDataStorage_init p ds t (pad4 y @ pad2 m @ pad2 d) ty = Inr self0
               \<and> date self0 = Datetime y m d \<and> date_shard self0 = pad4 y @ pad2 m @ pad2 d))"
  unfolding Let_def
proof (intro conjI impI allI)
  assume "\<forall>c s. map_of (AList.update partitioning_column (Broadcast (date self)) dataframe) c
                  = Some s \<longrightarrow>
            (\<exists>s'. coerce_all pd (map field_type (filter (\<lambda>f. name f = c) bq_schema)) s = Inr s')"
  then have "\<And>c s. map_of (AList.update partitioning_column (Broadcast (date self)) dataframe) c
                    = Some s \<Longrightarrow>
              \<exists>s'. coerce_all pd (map field_type (filter (\<lambda>f. name f = c) bq_schema)) s = Inr s'"
    by blast
  then show "\<exists>dataframe' tag.
           transform_dataframe pd self dataframe table_type = Inr dataframe'
         \<and> map fst dataframe' =
             partitioning_column # filter (\<lambda>c. c \<noteq> partitioning_column) (map fst dataframe)
         \<and> hd dataframe' = (partitioning_column, tag)
         \<and> coerce_all pd (map field_type (filter (\<lambda>f. name f = partitioning_column) bq_schema))
               (Broadcast (date self)) = Inr tag
         \<and> (\<forall>c s. map_of dataframe c = Some s \<and> c \<noteq> partitioning_column \<longrightarrow>
               (\<exists>s'. coerce_all pd (map field_type (filter (\<lambda>f. name f = c) bq_schema)) s = Inr s'
                     \<and> map_of dataframe' c = Some s'))"
    by (rule transform_dataframe_ok [OF assms])
next
  assume "\<exists>c s e. map_of (AList.update partitioning_column (Broadcast (date self)) dataframe) c
                       = Some s
                \<and> coerce_all pd (map field_type (filter (\<lambda>f. name f = c) bq_schema)) s = Inl e"
  then show "\<exists>c s e. map_of (AList.update partitioning_column (Broadcast (date self)) dataframe) c
                   = Some s
            \<and> coerce_all pd (map field_type (filter (\<lambda>f. name f = c) bq_schema)) s = Inl e
            \<and> transform_dataframe pd self dataframe table_type = Inl e"
    by (rule transform_dataframe_raises [OF assms])
next
  fix s :: "'a series"
  show "coerce_all pd [''STRING''] s
          = (case pd Astype_str s of Some e \<Rightarrow> Inl e | None \<Rightarrow> Inr (AsType_str s))"
    by (rule coerce_all_single)
  show "coerce_all pd [''FLOAT''] s
          = (case pd Astype_float s of Some e \<Rightarrow> Inl e | None \<Rightarrow> Inr (AsType_float s))"
    by (rule coerce_all_single)
  show "coerce_all pd [''INTEGER''] s
          = (case pd Series_Int64 s of Some e \<Rightarrow> Inl e | None \<Rightarrow> Inr (As_Int64 s))"
    by (rule coerce_all_single)
  show "coerce_all pd [''DATE''] s
          = (case pd Dt_accessor_date s of Some e \<Rightarrow> Inl e | None \<Rightarrow> Inr (Dt_date s))"
    by (rule coerce_all_single)
  show "coerce_all pd [] s = Inr s"
    by simp
next
  fix p ds t ty y m d
  assume "1 \<le> y \<and> y \<le> 9999 \<and> 1 \<le> m \<and> m \<le> 12 \<and> 1 \<le> d \<and> d \<le> days_in_month y m"
  then show "\<exists>self0. GaExportedNestedDataStorage_init p ds t (pad4 y @ pad2 m @ pad2 d) ty = Inr self0
               \<and> date self0 = Datetime y m d \<and> date_shard self0 = pad4 y @ pad2 m @ pad2 d"
    using init_of_shard [of y m d p ds t ty] by blast
qed

lemma coerce_all_nothing_raises: "\<exists>s'. coerce_all (raises_of []) ts s = Inr s'"
  by (induction ts arbitrary: s)
    (auto simp: convert_def raises_of_def split: option.splits)

text \<open>
  C7 as stated fails: for the table type \<open>flat_events\<close>, whose schema has
  \<open>event_value_in_usd\<close> as \<open>FLOAT\<close>, and a dataframe in which this column holds the text
  \<open>abc\<close>, on which \<open>astype(float)\<close> raises \<open>ValueError\<close>, no dataframe is returned.
\<close>

theorem transform_dataframe_raises_counterexample:
  "transform_dataframe (raises_of [((Astype_float, Values [''abc'']), ValueError)]) example_storage
     [(''event_value_in_usd'', Values [''abc''])] ''flat_events'' = Inl ValueError"
  by code_simp

theorem transform_dataframe_coerces_and_tags_witness:
  "map_of (partitioned_table_schemas
             (example_storage \<lparr> partitioned_table_schemas :=
                [(''flat_events'',
                  [SchemaField ''event_date'' ''DATE'', SchemaField ''event_id'' ''STRING'',
                   SchemaField ''c_ep'' ''STRING'', SchemaField ''c_ep'' ''STRING'',
                   SchemaField ''d_ep'' ''INTEGER''])] \<rparr>)) ''flat_events''
     = Some [SchemaField ''event_date'' ''DATE'', SchemaField ''event_id'' ''STRING'',
             SchemaField ''c_ep'' ''STRING'', SchemaField ''c_ep'' ''STRING'',
             SchemaField ''d_ep'' ''INTEGER'']
   \<and> distinct (map fst [(''event_id'', Values (1::nat)), (''c_ep'', Values 2), (''d_ep'', Values 3)])
   \<and> (\<exists>dataframe'.
         transform_dataframe (raises_of [])
           (example_storage \<lparr> partitioned_table_schemas :=
                [(''flat_events'',
                  [SchemaField ''event_date'' ''DATE'', SchemaField ''event_id'' ''STRING'',
                   SchemaField ''c_ep'' ''STRING'', SchemaField ''c_ep'' ''STRING'',
                   SchemaField ''d_ep'' ''INTEGER''])] \<rparr>)
           [(''event_id'', Values (1::nat)), (''c_ep'', Values 2), (''d_ep'', Values 3)]
           ''flat_events'' = Inr dataframe'
         \<and> map fst dataframe' = [''event_date'', ''event_id'', ''c_ep'', ''d_ep'']
         \<and> hd dataframe' = (''event_date'', Dt_date (Broadcast (Datetime 2024 1 1)))
         \<and> map_of dataframe' ''c_ep'' = Some (AsType_str (AsType_str (Values 2)))
         \<and> map_of dataframe' ''d_ep'' = Some (As_Int64 (Values 3)))
   \<and> (\<exists>self0. GaExportedNestedDataStorage_init ''my-project'' ''analytics_123'' ''events''
                 ''20240101'' ''DAILY'' = Inr self0
         \<and> date self0 = Datetime 2024 1 1)"
proof -
  let ?sch = "[SchemaField ''event_date'' ''DATE'', SchemaField ''event_id'' ''STRING'',
               SchemaField ''c_ep'' ''STRING'', SchemaField ''c_ep'' ''STRING'',
               SchemaField ''d_ep'' ''INTEGER'']"
  let ?self = "example_storage \<lparr> partitioned_table_schemas := [(''flat_events'', ?sch)] \<rparr>"
  let ?df = "[(''event_id'', Values (1::nat)), (''c_ep'', Values 2), (''d_ep'', Values 3)]"
  let ?pd = "raises_of [] :: nat pandas"
  let ?types = "\<lambda>c. map field_type (filter (\<lambda>f. name f = c) ?sch)"
  have h1: "map_of (partitioned_table_schemas ?self) ''flat_events'' = Some ?sch"
    by simp
  have h2: "distinct (map fst ?df)"
    by simp
  note main = transform_dataframe_coerces_and_tags [OF h1 h2, of ?pd, unfolded Let_def]
  have ok: "\<forall>c s. map_of (AList.update partitioning_column (Broadcast (date ?self)) ?df) c = Some s
              \<longrightarrow> (\<exists>s'. coerce_all ?pd (?types c) s = Inr s')"
    using coerce_all_nothing_raises by blast
  from main [THEN conjunct1, THEN mp, OF ok] obtain dataframe' tag where
    r: "transform_dataframe ?pd ?self ?df ''flat_events'' = Inr dataframe'"
    and k: "map fst dataframe'
            = partitioning_column # filter (\<lambda>c. c \<noteq> partitioning_column) (map fst ?df)"
    and h: "hd dataframe' = (partitioning_column, tag)"
    and t: "coerce_all ?pd (?types partitioning_column) (Broadcast (date ?self)) = Inr tag"
    and m: "\<forall>c s. map_of ?df c = Some s \<and> c \<noteq> partitioning_column \<longrightarrow>
               (\<exists>s'. coerce_all ?pd (?types c) s = Inr s' \<and> map_of dataframe' c = Some s')"
    by (elim exE conjE)
  have k': "map fst dataframe' = [''event_date'', ''event_id'', ''c_ep'', ''d_ep'']"
    using k by (simp add: partitioning_column_def)
  have "coerce_all ?pd (?types partitioning_column) (Broadcast (date ?self))
          = Inr (Dt_date (Broadcast (Datetime 2024 1 1)))"
    by code_simp
  with t h have h': "hd dataframe' = (''event_date'', Dt_date (Broadcast (Datetime 2024 1 1)))"
    by (simp add: partitioning_column_def)
  have cc: "coerce_all ?pd (?types ''c_ep'') (Values 2) = Inr (AsType_str (AsType_str (Values 2)))"
    by code_simp
  have "map_of ?df ''c_ep'' = Some (Values 2) \<and> ''c_ep'' \<noteq> partitioning_column"
    by (simp add: partitioning_column_def)
  from m [rule_format, OF this] cc
  have c': "map_of dataframe' ''c_ep'' = Some (AsType_str (AsType_str (Values 2)))"
    by auto
  have cd: "coerce_all ?pd (?types ''d_ep'') (Values 3) = Inr (As_Int64 (Values 3))"
    by code_simp
  have "map_of ?df ''d_ep'' = Some (Values 3) \<and> ''d_ep'' \<noteq> partitioning_column"
    by (simp add: partitioning_column_def)
  from m [rule_format, OF this] cd
  have d': "map_of dataframe' ''d_ep'' = Some (As_Int64 (Values 3))"
    by auto
  have shard: "pad4 2024 @ pad2 1 @ pad2 1 = ''20240101''"
    by code_simp
  have valid: "1 \<le> (2024::nat) \<and> (2024::nat) \<le> 9999 \<and> 1 \<le> (1::nat) \<and> (1::nat) \<le> 12
               \<and> 1 \<le> (1::nat) \<and> (1::nat) \<le> days_in_month 2024 1"
    by (simp add: days_in_month_def)
  from main [THEN conjunct2, THEN conjunct2, THEN conjunct2, rule_format, OF valid,
      of "''my-project''" "''analytics_123''" "''events''" "''DAILY''"]
  have i: "\<exists>self0. GaExportedNestedDataStorage_init ''my-project'' ''analytics_123'' ''events''
                 ''20240101'' ''DAILY'' = Inr self0
         \<and> date self0 = Datetime 2024 1 1"
    unfolding shard by blast
  have e: "\<exists>dataframe'.
         transform_dataframe ?pd ?self ?df ''flat_events'' = Inr dataframe'
         \<and> map fst dataframe' = [''event_date'', ''event_id'', ''c_ep'', ''d_ep'']
         \<and> hd dataframe' = (''event_date'', Dt_date (Broadcast (Datetime 2024 1 1)))
         \<and> map_of dataframe' ''c_ep'' = Some (AsType_str (AsType_str (Values 2)))
         \<and> map_of dataframe' ''d_ep'' = Some (As_Int64 (Values 3))"
    by (rule exI [of _ dataframe']) (intro conjI r k' h' c' d')
  show ?thesis
    by (intro conjI h1 h2 e i)
qed

lemma delete_partition_api_error:
  assumes "re_search_date (str_datetime (date self)) = Some date_string"
    and "delete_raises client = Some (GoogleAPICallError code)"
  shows "delete_partition client self table_type =
           ([Query (query_delete self table_type date_string) None,
             if code = 404 then LogWarning else LogCritical], None)"
  using assms by (simp add: delete_partition_def delete_partition_handler_def)

lemma run_query_job_after_failed_delete:
  assumes "query_raises client = None"
    and "query_result client = Inr dataframe"
    and "transform_dataframe pd self dataframe table_type = Inr dataframe'"
    and "re_search_date (str_datetime (date self)) = Some date_string"
    and "delete_raises client = Some (GoogleAPICallError code)"
  shows "run_query_job pd client self query table_type sharded True =
           ([Query query (if sharded
                          then Some (gcp_project self @ ''.'' @ dataset self @ ''.'' @ table_type
                                     @ ''_'' @ date_shard self)
                          else None),
             Query (query_delete self table_type date_string) None,
             if code = 404 then LogWarning else LogCritical,
             Load dataframe' (gcp_project self @ ''.'' @ dataset self @ ''.'' @ table_type)
               (map_of (partitioned_table_schemas self) table_type)],
            load_raises client)"
  using assms(1-3) delete_partition_api_error [OF assms(4,5)]
  by (simp add: run_query_job_def Let_def)

lemma run_query_job_delete_without_code:
  assumes "query_raises client = None"
    and "query_result client = Inr dataframe"
    and "transform_dataframe pd self dataframe table_type = Inr dataframe'"
    and "re_search_date (str_datetime (date self)) = Some date_string"
    and "delete_raises client = Some e"
    and "\<forall>code. e \<noteq> GoogleAPICallError code"
  shows "run_query_job pd client self query table_type sharded True =
           ([Query query (if sharded
                          then Some (gcp_project self @ ''.'' @ dataset self @ ''.'' @ table_type
                                     @ ''_'' @ date_shard self)
                          else None),
             Query (query_delete self table_type date_string) None],
            Some AttributeError)"
  using assms
  by (cases e) (simp_all add: run_query_job_def Let_def delete_partition_def delete_partition_handler_def)

lemma run_query_job_conversion_raises:
  assumes "query_raises client = None"
    and "query_result client = Inr dataframe"
    and "transform_dataframe pd self dataframe table_type = Inl e"
  shows "run_query_job pd client self query table_type sharded True =
           ([Query query (if sharded
                          then Some (gcp_project self @ ''.'' @ dataset self @ ''.'' @ table_type
                                     @ ''_'' @ date_shard self)
                          else None)],
            Some e)"
  using assms by (simp add: run_query_job_def Let_def)

text \<open>
  C2.  A run with partitioned output in which the deletion fails with the API error 500:
  the handler logs it as critical, the load is made all the same, and the method returns
  without an exception.
\<close>

theorem run_query_job_loads_after_failed_delete:
  "run_query_job (raises_of [])
     \<lparr> query_raises = None, query_result = Inr [(''event_id'', Values rows)],
       delete_raises = Some (GoogleAPICallError 500), load_raises = None \<rparr>
     example_storage query ''flat_event_params'' True True
   = ([Query query (Some ''my-project.analytics_123.flat_event_params_20240101''),
       Query (query_delete example_storage ''flat_event_params'' ''2024-01-01'') None,
       LogCritical,
       Load [(''event_date'', Dt_date (Broadcast (Datetime 2024 1 1))),
             (''event_id'', AsType_str (Values rows))]
         ''my-project.analytics_123.flat_event_params'' (Some flat_event_params_schema)],
      None)"
proof -
  let ?client = "\<lparr> query_raises = None, query_result = Inr [(''event_id'', Values rows)],
       delete_raises = Some (GoogleAPICallError 500), load_raises = None \<rparr>"
  have t: "transform_dataframe (raises_of []) example_storage [(''event_id'', Values rows)]
             ''flat_event_params''
         = Inr [(''event_date'', Dt_date (Broadcast (Datetime 2024 1 1))),
                (''event_id'', AsType_str (Values rows))]"
    by (simp add: transform_dataframe_def example_storage_def initial_partitioned_table_schemas_def
        flat_event_params_schema_def partitioning_column_def conversion_for_def convert_def
        converted_def raises_of_def Let_def)
  have d: "re_search_date (str_datetime (date example_storage)) = Some ''2024-01-01''"
    by code_simp
  have s: "map_of (partitioned_table_schemas example_storage) ''flat_event_params''
         = Some flat_event_params_schema"
    by (simp add: example_storage_def initial_partitioned_table_schemas_def)
  have "run_query_job (raises_of []) ?client example_storage query ''flat_event_params'' True True
        = ([Query query (Some (gcp_project example_storage @ ''.'' @ dataset example_storage @ ''.''
                               @ ''flat_event_params'' @ ''_'' @ date_shard example_storage)),
            Query (query_delete example_storage ''flat_event_params'' ''2024-01-01'') None,
            LogCritical,
            Load [(''event_date'', Dt_date (Broadcast (Datetime 2024 1 1))),
                  (''event_id'', AsType_str (Values rows))]
              (gcp_project example_storage @ ''.'' @ dataset example_storage @ ''.''
               @ ''flat_event_params'')
              (map_of (partitioned_table_schemas example_storage) ''flat_event_params'')],
           load_raises ?client)"
    using run_query_job_after_failed_delete [of ?client "[(''event_id'', Values rows)]"
        "raises_of []" example_storage "''flat_event_params''" _ "''2024-01-01''" 500 query True] t d
    by simp
  then show ?thesis
    unfolding s by (simp add: example_storage_def)
qed

end
